theory Spec2Isabelle
  imports Complex_Main "HOL-Library.AList"
begin

section \<open>gnmi-exporter: shallow embedding\<close>

text \<open>
  Conventions. Python strings are \<open>string\<close> (the xpaths and YANG names handled here are
  ASCII). A \<open>dict\<close> is an association list whose order is the insertion order, read with
  \<open>map_of\<close> and written with \<open>AList.update\<close> (a new key goes last, an existing key keeps
  its place). An exception that leaves a function is the \<open>Inl\<close> branch of its result.
  Mutexes are not modelled: every operation below runs under the lock in the source and
  is one atomic step here.
\<close>

datatype py_error = IndexError | KeyError | TypeError | ValueError | XpathError | DialError

subsection \<open>gNMI protobuf messages\<close>

text \<open>
  Modelled from the spec: the generated module \<open>gnmi_pb2\<close> (Path, PathElem, TypedValue,
  Update, Notification) is not part of the sources. A Path is an ordered sequence of
  elements \<open>{name, keys}\<close> plus an origin and an optional target.
\<close>

record path_elem =
  name :: string
  key :: "(string \<times> string) list"

record path =
  elem :: "path_elem list"
  origin :: string
  target :: "string option"

text \<open>
  Modelled from the spec: TypedValue is a tagged union of scalars. The plugins apply
  only the Python built-ins \<open>str()\<close> and \<open>int()\<close> to the scalar they extract, so a scalar
  is given by what the two built-ins return on it; \<open>int()\<close> raises on a scalar that is
  not a number (ValueError on a non-numeric string, TypeError on a message object).
\<close>

record typed_value =
  py_str :: string
  py_int :: "py_error + int"

text \<open>
  Modelled from the spec: an Update is \<open>{path, value, duplicates}\<close>. The value is a
  protobuf oneof; \<open>None\<close> is the oneof left unset (\<open>WhichOneof\<close> returns None).
\<close>

record update =
  upd_path :: path
  upd_val :: "typed_value option"
  upd_duplicates :: nat

text \<open>
  Modelled from the spec: a Notification is
  \<open>{timestamp, atomic, prefix, updates, deletes}\<close>.
\<close>

record notification =
  nf_timestamp :: int
  nf_atomic :: bool
  nf_prefix :: path
  nf_update :: "update list"
  nf_delete :: "path list"

subsection \<open>base_plug.py: flattened messages\<close>

record gnmi_message =
  timestamp :: int
  atomic :: bool
  path :: "string list"
  path_keys :: "(string \<times> string) list list"

record gnmi_update = gnmi_message +
  val :: "typed_value option"
  duplicates :: nat

type_synonym gnmi_delete = gnmi_message

definition scan_gnmi_path ::
  "'a gnmi_message_scheme \<Rightarrow> path \<Rightarrow> 'a gnmi_message_scheme" where
  "scan_gnmi_path msg p =
     msg\<lparr>path := path msg @ map name (elem p),
         path_keys := path_keys msg @ map key (elem p)\<rparr>"

text \<open>\<open>self.path_keys[index][name]\<close>; IndexError and KeyError give the sentinel.\<close>

definition get_path_key :: "'a gnmi_message_scheme \<Rightarrow> nat \<Rightarrow> string \<Rightarrow> string" where
  "get_path_key msg index nm =
     (if index < length (path_keys msg)
      then (case map_of (path_keys msg ! index) nm of
              Some v \<Rightarrow> v
            | None \<Rightarrow> ''not_available'')
      else ''not_available'')"

definition GnmiUpdate :: "notification \<Rightarrow> gnmi_update" where
  "GnmiUpdate nf =
     scan_gnmi_path
       \<lparr>timestamp = nf_timestamp nf, atomic = nf_atomic nf, path = [], path_keys = [],
        val = None, duplicates = 0\<rparr>
       (nf_prefix nf)"

definition GnmiDelete :: "notification \<Rightarrow> gnmi_delete" where
  "GnmiDelete nf =
     scan_gnmi_path
       \<lparr>timestamp = nf_timestamp nf, atomic = nf_atomic nf, path = [], path_keys = []\<rparr>
       (nf_prefix nf)"

text \<open>
  \<open>getattr(upd_msg.val, upd_msg.val.WhichOneof('value'))\<close>: with the oneof unset the
  attribute name is None and \<open>getattr\<close> raises TypeError.
\<close>

definition new_upd_msg :: "gnmi_update \<Rightarrow> update \<Rightarrow> py_error + gnmi_update" where
  "new_upd_msg self upd_msg =
     (let msg = scan_gnmi_path self (upd_path upd_msg) in
      case upd_val upd_msg of
        None \<Rightarrow> Inl TypeError
      | Some v \<Rightarrow> Inr (msg\<lparr>val := Some v, duplicates := upd_duplicates upd_msg\<rparr>))"

definition new_del_msg :: "gnmi_delete \<Rightarrow> path \<Rightarrow> gnmi_delete" where
  "new_del_msg self del_msg = scan_gnmi_path self del_msg"

subsection \<open>base_plug.py: BasePlugin\<close>

record base_plugin_config =
  instance_name :: string
  dev_name :: string
  metric_prefix :: string

record base_plugin =
  config :: base_plugin_config
  buffer :: "notification list"
  on_sync :: bool
  update_list :: "gnmi_update list"
  delete_list :: "gnmi_delete list"

definition gnmi_notification_handler ::
  "'a base_plugin_scheme \<Rightarrow> notification \<Rightarrow> 'a base_plugin_scheme" where
  "gnmi_notification_handler self msg = self\<lparr>buffer := buffer self @ [msg]\<rparr>"

definition set_sync_status :: "'a base_plugin_scheme \<Rightarrow> bool \<Rightarrow> 'a base_plugin_scheme" where
  "set_sync_status self sync =
     (let self1 = (if \<not> sync \<and> on_sync self then self\<lparr>buffer := []\<rparr> else self)
      in self1\<lparr>on_sync := sync\<rparr>)"

text \<open>The inner loop of checkout over \<open>nf.update\<close>: it stops at the first raise.\<close>

fun unpack_updates :: "gnmi_update \<Rightarrow> update list \<Rightarrow> py_error + gnmi_update list" where
  "unpack_updates g [] = Inr []"
| "unpack_updates g (u # us) =
     (case new_upd_msg g u of
        Inl e \<Rightarrow> Inl e
      | Inr m \<Rightarrow> (case unpack_updates g us of
                   Inl e \<Rightarrow> Inl e
                 | Inr ms \<Rightarrow> Inr (m # ms)))"

text \<open>
  The outer loop of checkout over the drained notifications: the messages appended to
  \<open>update_list\<close> and \<open>delete_list\<close>, in the order of the appends.
\<close>

fun unpack :: "notification list \<Rightarrow> py_error + (gnmi_update list \<times> gnmi_delete list)" where
  "unpack [] = Inr ([], [])"
| "unpack (nf # nfs) =
     (case unpack_updates (GnmiUpdate nf) (nf_update nf) of
        Inl e \<Rightarrow> Inl e
      | Inr us \<Rightarrow>
          (case unpack nfs of
             Inl e \<Rightarrow> Inl e
           | Inr (us', ds') \<Rightarrow>
               Inr (us @ us', map (new_del_msg (GnmiDelete nf)) (nf_delete nf) @ ds')))"

text \<open>What checkout takes out of the buffer: its content when on sync, nothing otherwise.\<close>

definition nf_buf :: "'a base_plugin_scheme \<Rightarrow> notification list" where
  "nf_buf self = (if on_sync self then buffer self else [])"

text \<open>
  \<open>list.sort(key=...)\<close> is a stable sort; \<open>sort_key\<close> (insertion sort) is the stable
  sort of HOL, and a stable sort by a key has one result only.
\<close>

definition checkout :: "'a base_plugin_scheme \<Rightarrow> py_error + 'a base_plugin_scheme" where
  "checkout self =
     (let self1 = self\<lparr>update_list := [], delete_list := []\<rparr>;
          self2 = (if on_sync self1 then self1\<lparr>buffer := []\<rparr> else self1)
      in case unpack (nf_buf self) of
           Inl e \<Rightarrow> Inl e
         | Inr (us, ds) \<Rightarrow>
             Inr (self2\<lparr>update_list := sort_key timestamp us,
                       delete_list := sort_key timestamp ds\<rparr>))"

subsection \<open>common_types.py\<close>

text \<open>
  The interface tables hold values of type \<open>Any\<close> (a \<open>str\<close> or an \<open>int\<close>) and copy them
  into the metrics, so a label value and a metric value are Python objects of one of the
  two kinds. \<open>time.time()\<close> is a real number.
\<close>

datatype py_obj = PyStr string | PyInt int

record gnmi_paths =
  xpath_list :: "string list"
  datamodels :: "string list"
  paths_origin :: string
  paths_target :: string

record gnmi_metric =
  labelval :: "py_obj list"
  metric_val :: py_obj
  ts :: real

datatype gnmi_metric_type = UNKNOWN | COUNTER | GAUGE

record gnmi_metric_bundle =
  bundle_type :: gnmi_metric_type
  device_name :: string
  metric_name :: string
  documentation :: string
  labelset :: "string list"
  metrics :: "gnmi_metric list"

text \<open>\<open>GnmiMetric()\<close> with the dataclass defaults.\<close>

definition GnmiMetric_default :: gnmi_metric where
  "GnmiMetric_default = \<lparr>labelval = [], metric_val = PyInt 0, ts = 0\<rparr>"

definition is_valid :: "gnmi_metric_bundle \<Rightarrow> bool" where
  "is_valid self =
     (if device_name self = [] \<or> metric_name self = [] \<or> bundle_type self = UNKNOWN
      then False
      else list_all (\<lambda>mt. length (labelval mt) = length (labelset self)) (metrics self))"

subsection \<open>promexp.py: PromClient\<close>

text \<open>
  The collector is polymorphic in the plugin handle \<open>'p\<close> (the \<open>Plugin\<close> protocol). A
  bundle is a value here: the bundles that the plugins return in one scrape are taken to
  be distinct objects, as the bundles that \<open>OcInterfaces\<close> builds are.
\<close>

record prom_client_config =
  pc_instance_name :: string
  listen_address :: string
  listen_port :: int
  pc_metric_prefix :: string

record 'p prom_client =
  pc_config :: prom_client_config
  plugin_list :: "'p list"
  bundle_table :: "(string \<times> gnmi_metric_bundle) list"
  collected_devices :: nat
  collected_plugins :: nat

definition PromClient :: "prom_client_config \<Rightarrow> 'p prom_client" where
  "PromClient cfg =
     \<lparr>pc_config = cfg, plugin_list = [], bundle_table = [],
      collected_devices = 0, collected_plugins = 0\<rparr>"

definition register_plugin :: "'p prom_client \<Rightarrow> 'p \<Rightarrow> 'p prom_client" where
  "register_plugin self plug = self\<lparr>plugin_list := plugin_list self @ [plug]\<rparr>"

definition unregister_all :: "'p prom_client \<Rightarrow> 'p prom_client" where
  "unregister_all self = self\<lparr>plugin_list := []\<rparr>"

text \<open>
  \<open>if bundle.metric_name not in self._bundle_table: ... = bundle\<close>
  \<open>else: self._bundle_table[bundle.metric_name].metrics.extend(bundle.metrics)\<close>
\<close>

definition merge_bundle ::
  "(string \<times> gnmi_metric_bundle) list \<Rightarrow> gnmi_metric_bundle
   \<Rightarrow> (string \<times> gnmi_metric_bundle) list" where
  "merge_bundle tbl bundle =
     (case map_of tbl (metric_name bundle) of
        None \<Rightarrow> AList.update (metric_name bundle) bundle tbl
      | Some e \<Rightarrow>
          AList.update (metric_name bundle) (e\<lparr>metrics := metrics e @ metrics bundle\<rparr>) tbl)"

text \<open>The loop \<open>for bundle in plugin\<close>, on the pair (device_names, bundle table).\<close>

fun walk_bundles ::
  "string set \<times> (string \<times> gnmi_metric_bundle) list \<Rightarrow> gnmi_metric_bundle list
   \<Rightarrow> string set \<times> (string \<times> gnmi_metric_bundle) list" where
  "walk_bundles (device_names, tbl) [] = (device_names, tbl)"
| "walk_bundles (device_names, tbl) (bundle # rest) =
     (if is_valid bundle
      then walk_bundles (insert (device_name bundle) device_names, merge_bundle tbl bundle) rest
      else walk_bundles (device_names, tbl) rest)"

text \<open>
  The loop \<open>for plugin in response\<close>. \<open>device_names\<close> starts empty for every plugin and
  \<open>collected_devices\<close> is assigned at the end of every accepted plugin's turn.
\<close>

fun walk_response :: "'p prom_client \<Rightarrow> gnmi_metric_bundle list list \<Rightarrow> 'p prom_client" where
  "walk_response self [] = self"
| "walk_response self (plugin # rest) =
     (if plugin \<noteq> [] \<and> is_valid (hd plugin)
      then (let self1 = self\<lparr>collected_plugins := collected_plugins self + 1\<rparr>;
                r = walk_bundles ({}, bundle_table self1) plugin
            in walk_response
                 (self1\<lparr>bundle_table := snd r, collected_devices := card (fst r)\<rparr>) rest)
      else walk_response self rest)"

text \<open>
  \<open>asyncio.gather\<close> over coroutines that never suspend: they run in list order and the
  first exception leaves the gather.
\<close>

fun gather :: "(py_error + 'a) list \<Rightarrow> py_error + 'a list" where
  "gather [] = Inr []"
| "gather (r # rs) =
     (case r of
        Inl e \<Rightarrow> Inl e
      | Inr x \<Rightarrow> (case gather rs of Inl e \<Rightarrow> Inl e | Inr xs \<Rightarrow> Inr (x # xs)))"

text \<open>
  \<open>fetch p\<close> is what awaiting \<open>p.fetch_metric_bundles()\<close> gives in this scrape.
\<close>

definition query_plugins ::
  "('p \<Rightarrow> py_error + gnmi_metric_bundle list) \<Rightarrow> 'p prom_client
   \<Rightarrow> py_error + 'p prom_client" where
  "query_plugins fetch self =
     (let self1 = self\<lparr>collected_plugins := 0, collected_devices := 0\<rparr> in
      if plugin_list self1 \<noteq> []
      then (case gather (map fetch (plugin_list self1)) of
              Inl e \<Rightarrow> Inl e
            | Inr response \<Rightarrow> Inr (walk_response self1 response))
      else Inr self1)"

text \<open>
  One self-statistic gauge; the source writes the constructor call out five times.
\<close>

definition stat_gauge ::
  "prom_client_config \<Rightarrow> string \<Rightarrow> string \<Rightarrow> int \<Rightarrow> real \<Rightarrow> gnmi_metric_bundle" where
  "stat_gauge cfg suffix doc v t =
     \<lparr>bundle_type = GAUGE, device_name = [],
      metric_name = pc_metric_prefix cfg @ suffix,
      documentation = doc, labelset = [''instance_name''],
      metrics = [\<lparr>labelval = [PyStr (pc_instance_name cfg)], metric_val = PyInt v, ts = t\<rparr>]\<rparr>"

text \<open>\<open>now k\<close> is the reading of the \<open>k\<close>-th call of \<open>time.time()\<close> in this function.\<close>

definition compute_stats :: "(nat \<Rightarrow> real) \<Rightarrow> 'p prom_client \<Rightarrow> 'p prom_client" where
  "compute_stats now self =
     (let cfg = pc_config self;
          t1 = AList.update ''configured_devices''
                 (stat_gauge cfg ''_configured_devices'' ''Number of configured devices''
                    (int (length (plugin_list self))) (now 0))
                 (bundle_table self);
          t2 = AList.update ''collected_devices''
                 (stat_gauge cfg ''_collected_devices'' ''Number of actively monitored devices''
                    (int (collected_devices self)) (now 1))
                 t1;
          t3 = AList.update ''collected_plugins''
                 (stat_gauge cfg ''_collected_plugins''
                    ''Number of actively monitored plugin instances''
                    (int (collected_plugins self)) (now 2))
                 t2;
          t4 = AList.update ''collected_metrics''
                 (stat_gauge cfg ''_collected_metrics'' ''Number of collected metrics''
                    (int (length t3) + 1) (now 3))
                 t3;
          collected_series = sum_list (map (\<lambda>(k, metric). length (metrics metric)) t4);
          t5 = AList.update ''collected_series''
                 (stat_gauge cfg ''_collected_series'' ''Number of collected series''
                    (int collected_series) (now 4))
                 t4
      in self\<lparr>bundle_table := t5\<rparr>)"

text \<open>
  \<open>collect\<close> up to its export loop: the bundles handed to the exporter library (every
  bundle of the table that is not UNKNOWN, in table order) and the collector with its
  table cleared. Building the library's metric families from them is outside the model.
\<close>

definition collect ::
  "('p \<Rightarrow> py_error + gnmi_metric_bundle list) \<Rightarrow> (nat \<Rightarrow> real) \<Rightarrow> 'p prom_client
   \<Rightarrow> py_error + (gnmi_metric_bundle list \<times> 'p prom_client)" where
  "collect fetch now self =
     (case query_plugins fetch self of
        Inl e \<Rightarrow> Inl e
      | Inr self1 \<Rightarrow>
          (let self2 = compute_stats now self1 in
           Inr (filter (\<lambda>bundle. bundle_type bundle \<noteq> UNKNOWN) (map snd (bundle_table self2)),
                self2\<lparr>bundle_table := []\<rparr>)))"

subsection \<open>oc_if.py: constants and tables\<close>

definition DATA_MODEL :: string where
  "DATA_MODEL = ''openconfig-interfaces''"

definition PATHS_TO_SUBSCRIBE :: gnmi_paths where
  "PATHS_TO_SUBSCRIBE =
     \<lparr>xpath_list = [''/interfaces/interface/state'',
                     ''/interfaces/interface/subinterfaces/subinterface/state''],
      datamodels = [DATA_MODEL],
      paths_origin = ''openconfig'',
      paths_target = ''oc_interfaces''\<rparr>"

definition PLUGIN_LABEL_SET :: "string list" where
  "PLUGIN_LABEL_SET = [''instance-name'', ''data-model'', ''device'']"

definition SUBIFACE_LABEL_SET :: "string list" where
  "SUBIFACE_LABEL_SET =
     [''name'', ''index'', ''mtu'', ''description'', ''ifindex'', ''admin-status'', ''oper-status'']"

definition SUBIFACE_METRIC_SET :: "string list" where
  "SUBIFACE_METRIC_SET =
     [''in-octets'', ''in-pkts'', ''in-unicast-pkts'', ''in-broadcast-pkts'',
      ''in-multicast-pkts'', ''in-errors'', ''in-discards'', ''out-octets'', ''out-pkts'',
      ''out-unicast-pkts'', ''out-broadcast-pkts'', ''out-multicast-pkts'', ''out-discards'',
      ''out-errors'', ''last-clear'', ''last-change'', ''in-unknown-protos'', ''in-fcs-errors'',
      ''carrier-transitions'']"

definition IFACE_LABEL_SET :: "string list" where
  "IFACE_LABEL_SET =
     [''name'', ''mtu'', ''description'', ''ifindex'', ''admin-status'', ''oper-status'']"

definition IFACE_METRIC_SET :: "string list" where
  "IFACE_METRIC_SET = SUBIFACE_METRIC_SET @ [''resets'']"

definition IFACE_PATH_NAME :: "nat \<times> string" where
  "IFACE_PATH_NAME = (1, ''name'')"

definition SUBIFACE_PATH_INDEX :: "nat \<times> string" where
  "SUBIFACE_PATH_INDEX = (3, ''index'')"

text \<open>\<open>update.get_path_key(*_IFACE_PATH_NAME)\<close>\<close>

definition key_at :: "'a gnmi_message_scheme \<Rightarrow> nat \<times> string \<Rightarrow> string" where
  "key_at msg k = get_path_key msg (fst k) (snd k)"

text \<open>
  IfaceTable: outer key the interface full name, inner key the entry name.
\<close>

type_synonym iface_table = "(string \<times> (string \<times> py_obj) list) list"

definition add_table_entry ::
  "iface_table \<Rightarrow> string \<Rightarrow> string list \<Rightarrow> string list \<Rightarrow> iface_table" where
  "add_table_entry tbl if_full_name label_tpl metric_tpl =
     (if map_of tbl if_full_name \<noteq> None then tbl
      else (let r0 = [(''name'', PyStr [])];
                r1 = foldl (\<lambda>r label. AList.update label (PyStr []) r) r0 label_tpl;
                r2 = foldl (\<lambda>r metric. AList.update metric (PyInt 0) r) r1 metric_tpl
            in AList.update if_full_name r2 tbl))"

text \<open>A KeyError (no such interface) is caught and logged: the table stays as it is.\<close>

definition update_table_entry ::
  "iface_table \<Rightarrow> string \<Rightarrow> string \<Rightarrow> py_obj \<Rightarrow> iface_table" where
  "update_table_entry tbl if_full_name entry_name entry_val =
     (case map_of tbl if_full_name of
        None \<Rightarrow> tbl
      | Some r \<Rightarrow> AList.update if_full_name (AList.update entry_name entry_val r) tbl)"

definition items :: "iface_table \<Rightarrow> string list" where
  "items tbl = map fst tbl"

definition get_entry :: "iface_table \<Rightarrow> string \<Rightarrow> string \<Rightarrow> py_obj" where
  "get_entry tbl if_name entry_name =
     (case map_of tbl if_name of
        None \<Rightarrow> PyStr '' ''
      | Some r \<Rightarrow> (case map_of r entry_name of None \<Rightarrow> PyStr '' '' | Some v \<Rightarrow> v))"

text \<open>MetricTable: outer key the metric name.\<close>

type_synonym metric_table = "(string \<times> gnmi_metric list) list"

definition add_metric :: "metric_table \<Rightarrow> string \<Rightarrow> gnmi_metric \<Rightarrow> metric_table" where
  "add_metric tbl nm metric =
     (case map_of tbl nm of
        None \<Rightarrow> AList.update nm [metric] tbl
      | Some ms \<Rightarrow> AList.update nm (ms @ [metric]) tbl)"

definition get_metrics :: "metric_table \<Rightarrow> string \<Rightarrow> gnmi_metric list" where
  "get_metrics tbl nm =
     (case map_of tbl nm of
        None \<Rightarrow> [GnmiMetric_default]
      | Some ms \<Rightarrow> ms)"

subsection \<open>oc_if.py: OcInterfaces\<close>

record oc_interfaces = base_plugin +
  iface_table :: iface_table
  subiface_table :: iface_table
  iface_metrics_table :: metric_table
  subiface_metrics_table :: metric_table
  bundle_list :: "gnmi_metric_bundle list"

text \<open>The plugin as its constructor leaves it (the registration is the caller's step).\<close>

definition OcInterfaces :: "base_plugin_config \<Rightarrow> oc_interfaces" where
  "OcInterfaces cfg =
     \<lparr>config = cfg, buffer = [], on_sync = False, update_list = [], delete_list = [],
      iface_table = [], subiface_table = [], iface_metrics_table = [],
      subiface_metrics_table = [], bundle_list = []\<rparr>"

definition get_paths :: "oc_interfaces \<Rightarrow> gnmi_paths" where
  "get_paths self = PATHS_TO_SUBSCRIBE"

definition clear_all_tables :: "oc_interfaces \<Rightarrow> oc_interfaces" where
  "clear_all_tables self =
     self\<lparr>iface_table := [], subiface_table := [], iface_metrics_table := [],
          subiface_metrics_table := [], bundle_list := []\<rparr>"

text \<open>
  \<open>re.fullmatch\<close> of a pattern made of letters only is equality; \<open>re.match\<close> of such a
  pattern is a prefix test.
\<close>

definition startswith :: "string \<Rightarrow> string \<Rightarrow> bool" where
  "startswith pat s = (take (length pat) s = pat)"

definition build_tables_step :: "oc_interfaces \<Rightarrow> gnmi_update \<Rightarrow> oc_interfaces" where
  "build_tables_step self upd =
     (let path_str = concat (path upd);
          self1 =
            (if path_str = ''interfacesinterfacestatename''
             then self\<lparr>iface_table :=
                         add_table_entry (iface_table self) (key_at upd IFACE_PATH_NAME)
                           IFACE_LABEL_SET IFACE_METRIC_SET\<rparr>
             else self)
      in if path_str = ''interfacesinterfacesubinterfacessubinterfacestatename''
         then self1\<lparr>subiface_table :=
                      add_table_entry (subiface_table self1)
                        (key_at upd IFACE_PATH_NAME @ ''.'' @ key_at upd SUBIFACE_PATH_INDEX)
                        SUBIFACE_LABEL_SET SUBIFACE_METRIC_SET\<rparr>
         else self1)"

definition build_tables :: "oc_interfaces \<Rightarrow> oc_interfaces" where
  "build_tables self = foldl build_tables_step self (update_list self)"

text \<open>\<open>str(update.val)\<close> and \<open>int(update.val)\<close>; \<open>val\<close> is None on a message without value.\<close>

definition str_val :: "typed_value option \<Rightarrow> string" where
  "str_val v = (case v of None \<Rightarrow> ''None'' | Some x \<Rightarrow> py_str x)"

definition int_val :: "typed_value option \<Rightarrow> py_error + int" where
  "int_val v = (case v of None \<Rightarrow> Inl TypeError | Some x \<Rightarrow> py_int x)"

text \<open>\<open>update.path[-1]\<close>\<close>

definition path_last :: "string list \<Rightarrow> py_error + string" where
  "path_last p = (if p = [] then Inl IndexError else Inr (last p))"

text \<open>
  The two halves of the body of the loop of \<open>update_tables\<close>. The result \<open>Inr None\<close> is
  the \<open>continue\<close> statement: the rest of the body is skipped for this update.
\<close>

definition update_tables_iface ::
  "oc_interfaces \<Rightarrow> gnmi_update \<Rightarrow> py_error + oc_interfaces option" where
  "update_tables_iface self upd =
     (if startswith ''interfacesinterfacestate'' (concat (path upd))
      then (case path_last (path upd) of
              Inl e \<Rightarrow> Inl e
            | Inr leaf \<Rightarrow>
                (case (if leaf \<in> set IFACE_LABEL_SET then Inr (Some (PyStr (str_val (val upd))))
                       else if leaf \<in> set IFACE_METRIC_SET
                       then map_sum id (Some \<circ> PyInt) (int_val (val upd))
                       else Inr None) of
                   Inl e \<Rightarrow> Inl e
                 | Inr None \<Rightarrow> Inr None
                 | Inr (Some v) \<Rightarrow>
                     Inr (Some (self\<lparr>iface_table :=
                                       update_table_entry (iface_table self)
                                         (key_at upd IFACE_PATH_NAME) leaf v\<rparr>))))
      else Inr (Some self))"

definition update_tables_subiface ::
  "oc_interfaces \<Rightarrow> gnmi_update \<Rightarrow> py_error + oc_interfaces option" where
  "update_tables_subiface self upd =
     (if startswith ''interfacesinterfacesubinterfacessubinterfacestate'' (concat (path upd))
      then (case path_last (path upd) of
              Inl e \<Rightarrow> Inl e
            | Inr leaf \<Rightarrow>
                (case (if leaf \<in> set SUBIFACE_LABEL_SET
                       then Inr (Some (PyStr (if leaf = ''name'' then key_at upd IFACE_PATH_NAME
                                              else str_val (val upd))))
                       else if leaf \<in> set SUBIFACE_METRIC_SET
                       then map_sum id (Some \<circ> PyInt) (int_val (val upd))
                       else Inr None) of
                   Inl e \<Rightarrow> Inl e
                 | Inr None \<Rightarrow> Inr None
                 | Inr (Some v) \<Rightarrow>
                     Inr (Some (self\<lparr>subiface_table :=
                                       update_table_entry (subiface_table self)
                                         (key_at upd IFACE_PATH_NAME @ ''.''
                                            @ key_at upd SUBIFACE_PATH_INDEX)
                                         leaf v\<rparr>))))
      else Inr (Some self))"

definition update_tables_step :: "oc_interfaces \<Rightarrow> gnmi_update \<Rightarrow> py_error + oc_interfaces" where
  "update_tables_step self upd =
     (case update_tables_iface self upd of
        Inl e \<Rightarrow> Inl e
      | Inr None \<Rightarrow> Inr self
      | Inr (Some self1) \<Rightarrow>
          (case update_tables_subiface self1 upd of
             Inl e \<Rightarrow> Inl e
           | Inr None \<Rightarrow> Inr self1
           | Inr (Some self2) \<Rightarrow> Inr self2))"

fun update_tables_loop :: "oc_interfaces \<Rightarrow> gnmi_update list \<Rightarrow> py_error + oc_interfaces" where
  "update_tables_loop self [] = Inr self"
| "update_tables_loop self (upd # rest) =
     (case update_tables_step self upd of
        Inl e \<Rightarrow> Inl e
      | Inr self1 \<Rightarrow> update_tables_loop self1 rest)"

definition update_tables :: "oc_interfaces \<Rightarrow> py_error + oc_interfaces" where
  "update_tables self = update_tables_loop self (update_list self)"

text \<open>One metric of \<open>build_metrics\<close>; \<open>t\<close> is the reading of \<open>time.time()\<close>.\<close>

definition build_metric ::
  "base_plugin_config \<Rightarrow> iface_table \<Rightarrow> string list \<Rightarrow> string \<Rightarrow> string \<Rightarrow> real
   \<Rightarrow> gnmi_metric" where
  "build_metric cfg tbl label_set metric iface t =
     \<lparr>labelval = [PyStr (instance_name cfg), PyStr DATA_MODEL, PyStr (dev_name cfg)]
                  @ map (get_entry tbl iface) label_set,
      metric_val = get_entry tbl iface metric,
      ts = t\<rparr>"

text \<open>
  The body of the nested loops \<open>for metric in ...: for iface in ...\<close>, on the pair of the
  metric table and the number of clock readings taken so far.
\<close>

definition build_metrics_step ::
  "base_plugin_config \<Rightarrow> iface_table \<Rightarrow> string list \<Rightarrow> (nat \<Rightarrow> real)
   \<Rightarrow> metric_table \<times> nat \<Rightarrow> string \<times> string \<Rightarrow> metric_table \<times> nat" where
  "build_metrics_step cfg tbl label_set now acc mi =
     (add_metric (fst acc) (fst mi)
        (build_metric cfg tbl label_set (fst mi) (snd mi) (now (snd acc))),
      Suc (snd acc))"

text \<open>
  \<open>List.product ms is\<close> lists the pairs in the order of the nested loops (the metric is
  the outer variable). \<open>now k\<close> is the \<open>k\<close>-th reading of the clock in this render.
\<close>

definition build_metrics :: "(nat \<Rightarrow> real) \<Rightarrow> oc_interfaces \<Rightarrow> oc_interfaces" where
  "build_metrics now self =
     (let a = foldl (build_metrics_step (config self) (iface_table self) IFACE_LABEL_SET now)
                (iface_metrics_table self, 0)
                (List.product IFACE_METRIC_SET (items (iface_table self)));
          b = foldl (build_metrics_step (config self) (subiface_table self) SUBIFACE_LABEL_SET now)
                (subiface_metrics_table self, snd a)
                (List.product SUBIFACE_METRIC_SET (items (subiface_table self)))
      in self\<lparr>iface_metrics_table := fst a, subiface_metrics_table := fst b\<rparr>)"

text \<open>\<open>label.replace('-', '_')\<close>\<close>

definition replace_dash :: "string \<Rightarrow> string" where
  "replace_dash s = map (\<lambda>c. if c = CHR ''-'' then CHR ''_'' else c) s"

definition build_bundle ::
  "base_plugin_config \<Rightarrow> string \<Rightarrow> string list \<Rightarrow> metric_table \<Rightarrow> string
   \<Rightarrow> gnmi_metric_bundle" where
  "build_bundle cfg middle label_set tbl nm =
     \<lparr>bundle_type = COUNTER,
      device_name = dev_name cfg,
      metric_name = metric_prefix cfg @ middle @ replace_dash nm,
      documentation = [],
      labelset = label_set,
      metrics = get_metrics tbl nm\<rparr>"

definition build_bundle_list :: "oc_interfaces \<Rightarrow> oc_interfaces" where
  "build_bundle_list self =
     (let l1 = map replace_dash (PLUGIN_LABEL_SET @ IFACE_LABEL_SET);
          b1 = map (build_bundle (config self) ''_iface_'' l1 (iface_metrics_table self))
                 IFACE_METRIC_SET;
          l2 = map replace_dash (PLUGIN_LABEL_SET @ SUBIFACE_LABEL_SET);
          b2 = map (build_bundle (config self) ''_subiface_'' l2 (subiface_metrics_table self))
                 SUBIFACE_METRIC_SET
      in self\<lparr>bundle_list := bundle_list self @ b1 @ b2\<rparr>)"

text \<open>
  The render: the returned bundle list and the plugin after the call. The result is the
  content of \<open>bundle_list\<close> at the moment the call returns, which is what the collector
  reads. (The source hands out the list object itself, and the next call empties that
  object in place before it builds its own result.)
\<close>

definition fetch_metric_bundles ::
  "(nat \<Rightarrow> real) \<Rightarrow> oc_interfaces
   \<Rightarrow> py_error + (gnmi_metric_bundle list \<times> oc_interfaces)" where
  "fetch_metric_bundles now self =
     (case checkout (clear_all_tables self) of
        Inl e \<Rightarrow> Inl e
      | Inr self1 \<Rightarrow>
          if update_list self1 = [] then Inr ([], self1)
          else (case update_tables (build_tables self1) of
                  Inl e \<Rightarrow> Inl e
                | Inr self2 \<Rightarrow>
                    (let self3 = build_bundle_list (build_metrics now self2)
                     in Inr (bundle_list self3, self3))))"

text \<open>Two calls in succession, with nothing delivered to the plugin in between.\<close>

definition fetch_twice ::
  "(nat \<Rightarrow> real) \<Rightarrow> (nat \<Rightarrow> real) \<Rightarrow> oc_interfaces
   \<Rightarrow> py_error + (gnmi_metric_bundle list \<times> gnmi_metric_bundle list)" where
  "fetch_twice now1 now2 self =
     (case fetch_metric_bundles now1 self of
        Inl e \<Rightarrow> Inl e
      | Inr r1 \<Rightarrow>
          (case fetch_metric_bundles now2 (snd r1) of
             Inl e \<Rightarrow> Inl e
           | Inr r2 \<Rightarrow> Inr (fst r1, fst r2)))"

subsection \<open>client.py: GnmiClient\<close>

datatype encoding_types = JSON | BYTES | PROTO | ASCII | JSON_IETF

fun enc_value :: "encoding_types \<Rightarrow> int" where
  "enc_value JSON = 0"
| "enc_value BYTES = 1"
| "enc_value PROTO = 2"
| "enc_value ASCII = 3"
| "enc_value JSON_IETF = 4"

fun enc_name :: "encoding_types \<Rightarrow> string" where
  "enc_name JSON = ''JSON''"
| "enc_name BYTES = ''BYTES''"
| "enc_name PROTO = ''PROTO''"
| "enc_name ASCII = ''ASCII''"
| "enc_name JSON_IETF = ''JSON_IETF''"

definition PREFERRED_ENCODINGS :: "encoding_types list" where
  "PREFERRED_ENCODINGS = [PROTO, JSON, JSON_IETF, ASCII]"

record gnmi_client_config =
  scrape_interval :: int
  oversampling :: int
  wd_multiplier :: int
  force_encoding :: string
  bypass_msg_routing :: bool
  client_dev_name :: string
  ip :: string
  port :: int
  user :: string
  password :: string
  plugins :: "string set"

record gnmi_client =
  client_config :: gnmi_client_config
  plugin_table :: "(string \<times> oc_interfaces) list"
  path_list :: "gnmi_paths list"
  selected_encoding :: encoding_types

text \<open>
  \<open>GnmiClient.__init__\<close> from the parsed configurations (\<open>_parse_config\<close> of the client
  and of the plugin are not modelled). The loop over the set \<open>plugins\<close> acts on the one
  name it knows, \<open>oc_interfaces\<close>; constructing the plugin registers it with the exporter.
\<close>

definition GnmiClient ::
  "gnmi_client_config \<Rightarrow> base_plugin_config \<Rightarrow> oc_interfaces prom_client
   \<Rightarrow> gnmi_client \<times> oc_interfaces prom_client" where
  "GnmiClient cfg plug_cfg exporter =
     (let self = \<lparr>client_config = cfg, plugin_table = [], path_list = [],
                  selected_encoding = JSON\<rparr>
      in if ''oc_interfaces'' \<in> plugins cfg
         then (let plug = OcInterfaces plug_cfg
               in (self\<lparr>plugin_table := AList.update ''oc_interfaces'' plug (plugin_table self),
                        path_list := path_list self @ [get_paths plug]\<rparr>,
                   register_plugin exporter plug))
         else (self, exporter))"

text \<open>\<open>App.start\<close>: one client per device configuration, all on the same exporter.\<close>

fun load_clients ::
  "(gnmi_client_config \<times> base_plugin_config) list \<Rightarrow> oc_interfaces prom_client
   \<Rightarrow> gnmi_client list \<times> oc_interfaces prom_client" where
  "load_clients [] exporter = ([], exporter)"
| "load_clients (dev_cfg # rest) exporter =
     (let r = GnmiClient (fst dev_cfg) (snd dev_cfg) exporter;
          rs = load_clients rest (snd r)
      in (fst r # fst rs, snd rs))"

text \<open>
  Modelled from the spec: the CapabilityResponse of \<open>gnmi_pb2\<close>, with the supported models
  and the supported encodings (enum numbers) of the device.
\<close>

record model_data =
  md_name :: string
  organization :: string
  version :: string

record capability_response =
  supported_models :: "model_data list"
  supported_encodings :: "int list"

text \<open>The loop of the forced branch: no \<open>break\<close>, the last match stays.\<close>

fun force_loop :: "encoding_types list \<Rightarrow> string \<Rightarrow> encoding_types \<Rightarrow> encoding_types" where
  "force_loop [] forced sel = sel"
| "force_loop (enc # rest) forced sel =
     force_loop rest forced (if enc_name enc = forced then enc else sel)"

text \<open>The loop of the other branch: the first match is assigned and ends the loop.\<close>

fun pick_loop :: "encoding_types list \<Rightarrow> int list \<Rightarrow> encoding_types \<Rightarrow> encoding_types" where
  "pick_loop [] supported sel = sel"
| "pick_loop (enc # rest) supported sel =
     (if enc_value enc \<in> set supported then enc else pick_loop rest supported sel)"

text \<open>
  \<open>_check_caps\<close>; \<open>rpc\<close> is the outcome of the Capabilities call, \<open>None\<close> for an RpcError.
\<close>

definition check_caps :: "gnmi_client \<Rightarrow> capability_response option \<Rightarrow> py_error + gnmi_client" where
  "check_caps self rpc =
     (case rpc of
        None \<Rightarrow> Inl DialError
      | Some resp \<Rightarrow>
          if list_ex (\<lambda>plugin. list_ex (\<lambda>model. model \<notin> set (map md_name (supported_models resp)))
                                  (datamodels plugin))
               (path_list self)
          then Inl DialError
          else if force_encoding (client_config self) \<noteq> []
          then Inr (self\<lparr>selected_encoding :=
                            force_loop PREFERRED_ENCODINGS (force_encoding (client_config self))
                              (selected_encoding self)\<rparr>)
          else Inr (self\<lparr>selected_encoding :=
                            pick_loop PREFERRED_ENCODINGS (supported_encodings resp)
                              (selected_encoding self)\<rparr>))"

subsection \<open>utils.py: xpath_to_gnmi\<close>

text \<open>\<open>xpath.strip('/')\<close> removes every leading and every trailing slash.\<close>

definition strip_slash :: "string \<Rightarrow> string" where
  "strip_slash s =
     rev (dropWhile (\<lambda>c. c = CHR ''/'') (rev (dropWhile (\<lambda>c. c = CHR ''/'') s)))"

text \<open>
  The lookahead \<open>(?=(?:[^\[\]]|\[[^\[\]]+\])*$)\<close> of the split pattern, as the automaton
  of the expression: outside a bracket, just after an opening bracket, inside a bracket
  with at least one character read. A closing bracket outside, a bracket inside a
  bracket, an empty bracket and an open bracket at the end all reject.
\<close>

datatype la_state = Outside | Opened | Inside

fun lookahead_from :: "la_state \<Rightarrow> string \<Rightarrow> bool" where
  "lookahead_from Outside [] = True"
| "lookahead_from Opened [] = False"
| "lookahead_from Inside [] = False"
| "lookahead_from Outside (c # cs) =
     (if c = CHR ''['' then lookahead_from Opened cs
      else if c = CHR '']'' then False
      else lookahead_from Outside cs)"
| "lookahead_from Opened (c # cs) =
     (if c = CHR ''['' \<or> c = CHR '']'' then False else lookahead_from Inside cs)"
| "lookahead_from Inside (c # cs) =
     (if c = CHR '']'' then lookahead_from Outside cs
      else if c = CHR ''['' then False
      else lookahead_from Inside cs)"

definition lookahead :: "string \<Rightarrow> bool" where
  "lookahead s = lookahead_from Outside s"

text \<open>
  \<open>re.split\<close> with that pattern: the string is cut at every slash whose remainder passes
  the lookahead, and the slash is dropped.
\<close>

fun re_split :: "string \<Rightarrow> string list" where
  "re_split [] = [[]]"
| "re_split (c # cs) =
     (if c = CHR ''/'' \<and> lookahead cs then [] # re_split cs
      else (case re_split cs of
              [] \<Rightarrow> [[c]]
            | w # ws \<Rightarrow> (c # w) # ws))"

text \<open>
  The classes \<open>\w\<close> and \<open>\d\<close> on ASCII. On a \<open>str\<close> Python's classes also hold letters and
  digits beyond ASCII; an xpath with such a character is outside this model.
\<close>

definition is_digit :: "char \<Rightarrow> bool" where
  "is_digit c = (c \<in> set ''0123456789'')"

definition is_word_char :: "char \<Rightarrow> bool" where
  "is_word_char c =
     (c \<in> set ''abcdefghijklmnopqrstuvwxyz'' \<or> c \<in> set ''ABCDEFGHIJKLMNOPQRSTUVWXYZ''
      \<or> is_digit c \<or> c = CHR ''_'')"

text \<open>
  \<open>=(?P<value>.*)\]$\<close> read after the equals sign: a value without newline, the closing
  bracket, and the end of the string (\<open>$\<close> also matches before one last newline).
\<close>

definition value_tail :: "string \<Rightarrow> bool" where
  "value_tail s =
     (case rev s of
        [] \<Rightarrow> False
      | c # v \<Rightarrow>
          if c = CHR '']'' then CHR 0x0A \<notin> set v
          else (case v of
                  [] \<Rightarrow> False
                | d # v' \<Rightarrow> c = CHR 0x0A \<and> d = CHR '']'' \<and> CHR 0x0A \<notin> set v'))"

text \<open>
  \<open>\D+=...\<close> read after the first character of the key: \<open>seen\<close> says that \<open>\D+\<close> has read
  a character already. Some equals sign that follows non-digits only must start a
  \<open>value_tail\<close>.
\<close>

fun key_tail :: "bool \<Rightarrow> string \<Rightarrow> bool" where
  "key_tail seen [] = False"
| "key_tail seen (c # cs) =
     ((seen \<and> c = CHR ''='' \<and> value_tail cs) \<or> (\<not> is_digit c \<and> key_tail True cs))"

text \<open>
  \<open>_RE_PATH_COMPONENT.search(word)\<close>:
  \<open>^(?P<pname>[^[]+)(\[(?P<key>\w\D+)=(?P<value>.*)\])?$\<close>.
  The result is None when there is no match, else the group \<open>pname\<close> and whether the
  group \<open>key\<close> is not None. \<open>pname\<close> reads up to the first opening bracket and cannot be
  empty; without a bracket the optional group stays out; with one it must read the
  rest of the word.
\<close>

definition path_component :: "string \<Rightarrow> (string \<times> bool) option" where
  "path_component word =
     (let pname = takeWhile (\<lambda>c. c \<noteq> CHR ''['') word;
          rest = dropWhile (\<lambda>c. c \<noteq> CHR ''['') word
      in if pname = [] then None
         else (case rest of
                 [] \<Rightarrow> Some (pname, False)
               | b # [] \<Rightarrow> None
               | b # w # r \<Rightarrow>
                   if is_word_char w \<and> key_tail False r then Some (pname, True) else None))"

text \<open>
  \<open>re.findall(r'\[([^]]*)\]', word)\<close>: the texts between an opening bracket and the next
  closing bracket, left to right. The first argument is the text read since the opening
  bracket (reversed), or None outside a bracket. An opening bracket that is never closed
  gives no match.
\<close>

fun findall_from :: "string option \<Rightarrow> string \<Rightarrow> string list" where
  "findall_from acc [] = []"
| "findall_from None (c # cs) =
     (if c = CHR ''['' then findall_from (Some []) cs else findall_from None cs)"
| "findall_from (Some acc) (c # cs) =
     (if c = CHR '']'' then rev acc # findall_from None cs
      else findall_from (Some (c # acc)) cs)"

definition findall :: "string \<Rightarrow> string list" where
  "findall word = findall_from None word"

text \<open>\<open>x.split("=")[0]\<close> and \<open>x.split("=")[-1]\<close>\<close>

definition split_first :: "string \<Rightarrow> string" where
  "split_first x = takeWhile (\<lambda>c. c \<noteq> CHR ''='') x"

definition split_last :: "string \<Rightarrow> string" where
  "split_last x = rev (takeWhile (\<lambda>c. c \<noteq> CHR ''='') (rev x))"

text \<open>
  The loop \<open>for x in re.findall(...)\<close>: the elements it appends. The \<open>append\<close> stands
  inside the loop, so every bracket gives one element, with the keys read so far.
\<close>

fun key_loop :: "string \<Rightarrow> (string \<times> string) list \<Rightarrow> string list \<Rightarrow> path_elem list" where
  "key_loop pname tmp_key [] = []"
| "key_loop pname tmp_key (x # xs) =
     (let tmp_key' = AList.update (split_first x) (split_last x) tmp_key
      in \<lparr>name = pname, key = tmp_key'\<rparr> # key_loop pname tmp_key' xs)"

text \<open>The loop \<open>for word in p_names\<close>: the list \<open>gnmi_elems\<close>, or the XpathError.\<close>

fun word_loop :: "string list \<Rightarrow> py_error + path_elem list" where
  "word_loop [] = Inr []"
| "word_loop (word # rest) =
     (case path_component word of
        None \<Rightarrow> Inl XpathError
      | Some m \<Rightarrow>
          (case word_loop rest of
             Inl e \<Rightarrow> Inl e
           | Inr es \<Rightarrow>
               Inr ((if snd m then key_loop (fst m) [] (findall word)
                     else [\<lparr>name = word, key = []\<rparr>]) @ es)))"

definition xpath_to_gnmi :: "string \<Rightarrow> string \<Rightarrow> string option \<Rightarrow> py_error + path" where
  "xpath_to_gnmi xpath orig targ =
     (if xpath = [] \<or> xpath = ''/'' then Inl XpathError
      else (case word_loop (re_split (strip_slash xpath)) of
              Inl e \<Rightarrow> Inl e
            | Inr gnmi_elems \<Rightarrow> Inr \<lparr>elem = gnmi_elems, origin = orig, target = targ\<rparr>))"

section \<open>Notions used by the statements\<close>

text \<open>
  The bundles of one scrape that the collector accepts, in the order in which it walks
  them: a plugin's list counts when it is not empty and its first bundle is valid, and of
  such a list every valid bundle counts.
\<close>

definition accepted :: "gnmi_metric_bundle list list \<Rightarrow> gnmi_metric_bundle list" where
  "accepted response =
     concat (map (filter is_valid)
               (filter (\<lambda>plugin. plugin \<noteq> [] \<and> is_valid (hd plugin)) response))"

text \<open>The element names of the flattened path of an update: prefix, then update path.\<close>

definition flat_path :: "notification \<Rightarrow> update \<Rightarrow> string list" where
  "flat_path nf u = map name (elem (nf_prefix nf)) @ map name (elem (upd_path u))"

text \<open>\<open>int()\<close> accepts the value.\<close>

definition castable :: "typed_value option \<Rightarrow> bool" where
  "castable v = (case int_val v of Inl e \<Rightarrow> False | Inr i \<Rightarrow> True)"

text \<open>
  An update is well valued when its value oneof is set and, if its leaf is one of the
  metric leaves, \<open>int()\<close> accepts the value. Nothing is asked of the leaf or of the keys.
\<close>

definition well_valued :: "notification \<Rightarrow> update \<Rightarrow> bool" where
  "well_valued nf u =
     (upd_val u \<noteq> None
      \<and> (if flat_path nf u \<noteq> [] \<and> last (flat_path nf u) \<in> set IFACE_METRIC_SET
         then castable (upd_val u) else True))"

definition all_well_valued :: "notification list \<Rightarrow> bool" where
  "all_well_valued nfs = list_all (\<lambda>nf. list_all (well_valued nf) (nf_update nf)) nfs"

text \<open>Every leaf name that \<open>update_tables\<close> knows.\<close>

definition known_leaves :: "string list" where
  "known_leaves = IFACE_LABEL_SET @ IFACE_METRIC_SET @ SUBIFACE_LABEL_SET @ SUBIFACE_METRIC_SET"

section \<open>Example inputs\<close>

definition ex_elem :: "string \<Rightarrow> path_elem" where
  "ex_elem n = \<lparr>name = n, key = []\<rparr>"

definition ex_path :: "path_elem list \<Rightarrow> path" where
  "ex_path es = \<lparr>elem = es, origin = ''openconfig'', target = Some ''oc_interfaces''\<rparr>"

definition ex_text :: "string \<Rightarrow> typed_value" where
  "ex_text s = \<lparr>py_str = s, py_int = Inl ValueError\<rparr>"

definition ex_number :: "string \<Rightarrow> int \<Rightarrow> typed_value" where
  "ex_number s i = \<lparr>py_str = s, py_int = Inr i\<rparr>"

definition ex_update :: "string list \<Rightarrow> typed_value \<Rightarrow> update" where
  "ex_update ns v = \<lparr>upd_path = ex_path (map ex_elem ns), upd_val = Some v, upd_duplicates = 0\<rparr>"

text \<open>Notifications under \<open>/interfaces/interface[name=eth0]\<close>.\<close>

definition ex_prefix :: path where
  "ex_prefix =
     ex_path [ex_elem ''interfaces'', \<lparr>name = ''interface'', key = [(''name'', ''eth0'')]\<rparr>]"

definition ex_nf :: "int \<Rightarrow> update list \<Rightarrow> notification" where
  "ex_nf t us =
     \<lparr>nf_timestamp = t, nf_atomic = False, nf_prefix = ex_prefix, nf_update = us,
      nf_delete = []\<rparr>"

definition ex_nf_name :: notification where
  "ex_nf_name = ex_nf 20 [ex_update [''state'', ''name''] (ex_text ''eth0'')]"

definition ex_nf_octets :: notification where
  "ex_nf_octets =
     ex_nf 10 [ex_update [''state'', ''counters'', ''in-octets''] (ex_number ''42'' 42)]"

text \<open>A counter whose value is the text \<open>n/a\<close>.\<close>

definition ex_nf_bad_octets :: notification where
  "ex_nf_bad_octets =
     ex_nf 30 [ex_update [''state'', ''counters'', ''in-octets''] (ex_text ''n/a'')]"

text \<open>An unknown leaf, under a prefix without keys.\<close>

definition ex_nf_unknown :: notification where
  "ex_nf_unknown =
     \<lparr>nf_timestamp = 40, nf_atomic = False,
      nf_prefix = ex_path [ex_elem ''interfaces'', ex_elem ''interface''],
      nf_update = [ex_update [''state'', ''vendor-leaf''] (ex_text ''x'')],
      nf_delete = [ex_path [ex_elem ''state'']]\<rparr>"

definition ex_plugin_config :: base_plugin_config where
  "ex_plugin_config = \<lparr>instance_name = ''default'', dev_name = ''r1'', metric_prefix = ''gnmi''\<rparr>"

definition ex_plugin :: "notification list \<Rightarrow> bool \<Rightarrow> oc_interfaces" where
  "ex_plugin nfs sync = (OcInterfaces ex_plugin_config)\<lparr>buffer := nfs, on_sync := sync\<rparr>"

definition ex_clock :: "nat \<Rightarrow> real" where
  "ex_clock k = 1700000000 + real k"

text \<open>Two plugins of two devices, each with one bundle of the same metric name.\<close>

definition ex_bundle :: "string \<Rightarrow> int \<Rightarrow> gnmi_metric_bundle" where
  "ex_bundle dev v =
     \<lparr>bundle_type = COUNTER, device_name = dev, metric_name = ''gnmi_iface_in_octets'',
      documentation = [], labelset = [''device''],
      metrics = [\<lparr>labelval = [PyStr dev], metric_val = PyInt v, ts = 0\<rparr>]\<rparr>"

fun ex_fetch :: "nat \<Rightarrow> py_error + gnmi_metric_bundle list" where
  "ex_fetch 0 = Inr [ex_bundle ''r1'' 7]"
| "ex_fetch (Suc n) = Inr [ex_bundle ''r2'' 9]"

definition ex_prom_config :: prom_client_config where
  "ex_prom_config =
     \<lparr>pc_instance_name = ''default'', listen_address = ''0.0.0.0'', listen_port = 9456,
      pc_metric_prefix = ''gnmi''\<rparr>"

definition ex_collector :: "nat prom_client" where
  "ex_collector = register_plugin (register_plugin (PromClient ex_prom_config) 0) 1"

text \<open>Two devices, each with the plugin \<open>oc_interfaces\<close>.\<close>

definition ex_client_config :: "string \<Rightarrow> gnmi_client_config" where
  "ex_client_config dev =
     \<lparr>scrape_interval = 60, oversampling = 2, wd_multiplier = 3, force_encoding = [],
      bypass_msg_routing = False, client_dev_name = dev, ip = ''192.0.2.1'', port = 57400,
      user = ''admin'', password = ''admin'', plugins = {''oc_interfaces''}\<rparr>"

definition ex_devices :: "(gnmi_client_config \<times> base_plugin_config) list" where
  "ex_devices =
     [(ex_client_config ''r1'', ex_plugin_config),
      (ex_client_config ''r2'', ex_plugin_config\<lparr>dev_name := ''r2''\<rparr>)]"

text \<open>Two devices, each enabling two plugin names.\<close>

definition ex_devices_two_names :: "(gnmi_client_config \<times> base_plugin_config) list" where
  "ex_devices_two_names =
     [((ex_client_config ''r1'')\<lparr>plugins := {''oc_interfaces'', ''oc_bgp''}\<rparr>, ex_plugin_config),
      ((ex_client_config ''r2'')\<lparr>plugins := {''oc_interfaces'', ''oc_bgp''}\<rparr>,
       ex_plugin_config\<lparr>dev_name := ''r2''\<rparr>)]"

definition ex_client :: gnmi_client where
  "ex_client = fst (GnmiClient (ex_client_config ''r1'') ex_plugin_config (PromClient ex_prom_config))"

definition ex_caps :: "int list \<Rightarrow> capability_response" where
  "ex_caps encs =
     \<lparr>supported_models =
        [\<lparr>md_name = ''openconfig-interfaces'', organization = ''OpenConfig'', version = ''2.4.3''\<rparr>],
      supported_encodings = encs\<rparr>"

definition ex_xpath_two_keys :: string where
  "ex_xpath_two_keys =
     ''/network-instances/network-instance[name=default]/protocols/protocol[identifier=BGP][name=bgp]''"

section \<open>Verification\<close>

subsection \<open>BasePlugin: buffer, sync flag, checkout\<close>

lemma unpack_updates_mem:
  "unpack_updates g us = Inr ms \<Longrightarrow> u \<in> set us \<Longrightarrow> new_upd_msg g u \<in> Inr ` set ms"
  by (induction us arbitrary: ms) (auto split: sum.splits)

lemma unpack_mem_upd:
  "unpack nfs = Inr (us, ds) \<Longrightarrow> nf \<in> set nfs \<Longrightarrow> u \<in> set (nf_update nf)
   \<Longrightarrow> new_upd_msg (GnmiUpdate nf) u \<in> Inr ` set us"
  by (induction nfs arbitrary: us ds) (auto split: sum.splits dest: unpack_updates_mem)

lemma unpack_mem_del:
  "unpack nfs = Inr (us, ds) \<Longrightarrow> nf \<in> set nfs \<Longrightarrow> d \<in> set (nf_delete nf)
   \<Longrightarrow> new_del_msg (GnmiDelete nf) d \<in> set ds"
  by (induction nfs arbitrary: us ds) (auto split: sum.splits)

lemma checkout_lists:
  "checkout self = Inr self' \<Longrightarrow>
   \<exists>us ds. unpack (nf_buf self) = Inr (us, ds)
     \<and> update_list self' = sort_key timestamp us
     \<and> delete_list self' = sort_key timestamp ds"
  by (auto simp: checkout_def Let_def split: sum.splits if_splits)

lemma checkout_buffer:
  "checkout self = Inr self' \<Longrightarrow>
   on_sync self' = on_sync self \<and> buffer self' = (if on_sync self then [] else buffer self)"
  by (auto simp: checkout_def Let_def split: sum.splits if_splits)

lemma ex_checkout:
  "checkout (ex_plugin [ex_nf_name, ex_nf_unknown, ex_nf_octets] True) =
     Inr ((ex_plugin [] True)
            \<lparr>update_list :=
               [\<lparr>timestamp = 10, atomic = False,
                 path = [''interfaces'', ''interface'', ''state'', ''counters'', ''in-octets''],
                 path_keys = [[], [(''name'', ''eth0'')], [], [], []],
                 val = Some (ex_number ''42'' 42), duplicates = 0\<rparr>,
                \<lparr>timestamp = 20, atomic = False,
                 path = [''interfaces'', ''interface'', ''state'', ''name''],
                 path_keys = [[], [(''name'', ''eth0'')], [], []],
                 val = Some (ex_text ''eth0''), duplicates = 0\<rparr>,
                \<lparr>timestamp = 40, atomic = False,
                 path = [''interfaces'', ''interface'', ''state'', ''vendor-leaf''],
                 path_keys = [[], [], [], []],
                 val = Some (ex_text ''x''), duplicates = 0\<rparr>],
             delete_list :=
               [\<lparr>timestamp = 40, atomic = False,
                 path = [''interfaces'', ''interface'', ''state''],
                 path_keys = [[], [], []]\<rparr>]\<rparr>)"
  by (simp add: checkout_def nf_buf_def ex_plugin_def OcInterfaces_def ex_nf_name_def
      ex_nf_unknown_def ex_nf_octets_def ex_nf_def ex_update_def ex_path_def ex_elem_def
      ex_prefix_def GnmiUpdate_def GnmiDelete_def new_upd_msg_def new_del_msg_def
      scan_gnmi_path_def)

text \<open>
  C5. \<open>set_sync_status\<close> empties the notification buffer exactly on the transition from
  on sync to out of sync. On the three other transitions the buffer is the one before
  the call. In every case the flag takes the argument and nothing else of the plugin
  changes.
\<close>

theorem set_sync_status_clears_on_desync_only:
  "(on_sync self \<and> \<not> sync \<longrightarrow> buffer (set_sync_status self sync) = [])
   \<and> (\<not> (on_sync self \<and> \<not> sync) \<longrightarrow> buffer (set_sync_status self sync) = buffer self)
   \<and> on_sync (set_sync_status self sync) = sync
   \<and> config (set_sync_status self sync) = config self
   \<and> update_list (set_sync_status self sync) = update_list self
   \<and> delete_list (set_sync_status self sync) = delete_list self
   \<and> base_plugin.more (set_sync_status self sync) = base_plugin.more self"
  by (simp add: set_sync_status_def)

theorem set_sync_status_clears_on_desync_only_witness:
  "buffer (set_sync_status (ex_plugin [ex_nf_name, ex_nf_octets] True) False) = []
   \<and> buffer (set_sync_status (ex_plugin [ex_nf_name, ex_nf_octets] True) True)
       = [ex_nf_name, ex_nf_octets]
   \<and> buffer (set_sync_status (ex_plugin [ex_nf_name, ex_nf_octets] False) False)
       = [ex_nf_name, ex_nf_octets]
   \<and> buffer (set_sync_status (ex_plugin [ex_nf_name, ex_nf_octets] False) True)
       = [ex_nf_name, ex_nf_octets]
   \<and> \<not> on_sync (set_sync_status (ex_plugin [ex_nf_name, ex_nf_octets] True) False)"
  using set_sync_status_clears_on_desync_only
          [of "ex_plugin [ex_nf_name, ex_nf_octets] True" False]
        set_sync_status_clears_on_desync_only
          [of "ex_plugin [ex_nf_name, ex_nf_octets] True" True]
        set_sync_status_clears_on_desync_only
          [of "ex_plugin [ex_nf_name, ex_nf_octets] False" False]
        set_sync_status_clears_on_desync_only
          [of "ex_plugin [ex_nf_name, ex_nf_octets] False" True]
  by (simp add: ex_plugin_def)

text \<open>
  C8. When \<open>checkout\<close> returns, \<open>update_list\<close> and \<open>delete_list\<close> are in non-decreasing
  order of timestamp, and the sort is stable: the messages of one timestamp stand in
  the order in which the notifications of the drained buffer were unpacked.
\<close>

theorem checkout_sorted_stable:
  assumes "checkout self = Inr self'"
  shows "sorted (map timestamp (update_list self'))
       \<and> sorted (map timestamp (delete_list self'))
       \<and> (\<exists>us ds. unpack (nf_buf self) = Inr (us, ds)
            \<and> (\<forall>t. filter (\<lambda>m. timestamp m = t) (update_list self')
                      = filter (\<lambda>m. timestamp m = t) us)
            \<and> (\<forall>t. filter (\<lambda>m. timestamp m = t) (delete_list self')
                      = filter (\<lambda>m. timestamp m = t) ds))"
  using checkout_lists [OF assms] by (auto simp: sort_key_stable)

theorem checkout_sorted_stable_witness:
  "map timestamp
     (update_list (projr (checkout (ex_plugin [ex_nf_name, ex_nf_unknown, ex_nf_octets] True))))
     = [10, 20, 40]
   \<and> sorted (map timestamp
       (update_list (projr (checkout (ex_plugin [ex_nf_name, ex_nf_unknown, ex_nf_octets] True)))))
   \<and> sorted (map timestamp
       (delete_list (projr (checkout (ex_plugin [ex_nf_name, ex_nf_unknown, ex_nf_octets] True)))))"
  using checkout_sorted_stable [OF ex_checkout] by (simp add: ex_checkout)

text \<open>
  C9. A notification handed to \<open>gnmi_notification_handler\<close> while the plugin is out of
  sync is appended to the buffer all the same, \<open>set_sync_status True\<close> then leaves the
  buffer as it is, and the next \<open>checkout\<close> drains that notification: every update and
  every delete of it is in the lists of the checkout.
\<close>

theorem out_of_sync_notification_is_drained:
  assumes "\<not> on_sync self"
  shows "buffer (gnmi_notification_handler self nf) = buffer self @ [nf]
       \<and> buffer (set_sync_status (gnmi_notification_handler self nf) True) = buffer self @ [nf]
       \<and> on_sync (set_sync_status (gnmi_notification_handler self nf) True)
       \<and> nf \<in> set (nf_buf (set_sync_status (gnmi_notification_handler self nf) True))
       \<and> (\<forall>self'. checkout (set_sync_status (gnmi_notification_handler self nf) True) = Inr self'
            \<longrightarrow> (\<forall>u \<in> set (nf_update nf).
                    new_upd_msg (GnmiUpdate nf) u \<in> Inr ` set (update_list self'))
              \<and> (\<forall>d \<in> set (nf_delete nf).
                    new_del_msg (GnmiDelete nf) d \<in> set (delete_list self'))
              \<and> buffer self' = [])"
proof -
  let ?s = "set_sync_status (gnmi_notification_handler self nf) True"
  have b: "buffer ?s = buffer self @ [nf]" and s: "on_sync ?s"
    using assms by (simp_all add: set_sync_status_def gnmi_notification_handler_def)
  then have m: "nf \<in> set (nf_buf ?s)" by (simp add: nf_buf_def)
  have "(\<forall>u \<in> set (nf_update nf). new_upd_msg (GnmiUpdate nf) u \<in> Inr ` set (update_list self'))
      \<and> (\<forall>d \<in> set (nf_delete nf). new_del_msg (GnmiDelete nf) d \<in> set (delete_list self'))
      \<and> buffer self' = []"
    if c: "checkout ?s = Inr self'" for self'
  proof -
    from checkout_lists [OF c] obtain us ds where
      u: "unpack (nf_buf ?s) = Inr (us, ds)"
      and ul: "update_list self' = sort_key timestamp us"
      and dl: "delete_list self' = sort_key timestamp ds" by blast
    show ?thesis
      using unpack_mem_upd [OF u m] unpack_mem_del [OF u m] checkout_buffer [OF c] s ul dl
      by simp
  qed
  with b s m show ?thesis
    by (simp add: gnmi_notification_handler_def)
qed

theorem out_of_sync_notification_is_drained_witness:
  "\<not> on_sync (ex_plugin [ex_nf_name] False)
   \<and> buffer (set_sync_status (gnmi_notification_handler (ex_plugin [ex_nf_name] False) ex_nf_unknown) True)
       = [ex_nf_name, ex_nf_unknown]
   \<and> (\<exists>self'. checkout (set_sync_status
                 (gnmi_notification_handler (ex_plugin [ex_nf_name] False) ex_nf_unknown) True)
               = Inr self'
        \<and> map path (update_list self')
            = [[''interfaces'', ''interface'', ''state'', ''name''],
               [''interfaces'', ''interface'', ''state'', ''vendor-leaf'']]
        \<and> map path (delete_list self') = [[''interfaces'', ''interface'', ''state'']])"
proof -
  have n: "\<not> on_sync (ex_plugin [ex_nf_name] False)" by (simp add: ex_plugin_def)
  have e: "set_sync_status (gnmi_notification_handler (ex_plugin [ex_nf_name] False) ex_nf_unknown) True
             = ex_plugin [ex_nf_name, ex_nf_unknown] True"
    by (simp add: set_sync_status_def gnmi_notification_handler_def ex_plugin_def)
  have c: "\<exists>self'. checkout (ex_plugin [ex_nf_name, ex_nf_unknown] True) = Inr self'
        \<and> map path (update_list self')
            = [[''interfaces'', ''interface'', ''state'', ''name''],
               [''interfaces'', ''interface'', ''state'', ''vendor-leaf'']]
        \<and> map path (delete_list self') = [[''interfaces'', ''interface'', ''state'']]"
    by (simp add: checkout_def nf_buf_def ex_plugin_def OcInterfaces_def ex_nf_name_def
      ex_nf_unknown_def ex_nf_def ex_update_def ex_path_def ex_elem_def
      ex_prefix_def GnmiUpdate_def GnmiDelete_def new_upd_msg_def new_del_msg_def
      scan_gnmi_path_def)
  have b: "buffer (ex_plugin [ex_nf_name] False) = [ex_nf_name]"
    by (simp add: ex_plugin_def)
  from out_of_sync_notification_is_drained [OF n, of ex_nf_unknown] n e c b show ?thesis
    by simp
qed

subsection \<open>PromClient: the merge of a scrape\<close>

lemma walk_bundles_snd:
  "snd (walk_bundles (dn, tbl) bs) = foldl merge_bundle tbl (filter is_valid bs)"
  by (induction bs arbitrary: dn tbl) auto

lemma walk_bundles_fst:
  "fst (walk_bundles (dn, tbl) bs) = dn \<union> device_name ` set (filter is_valid bs)"
  by (induction bs arbitrary: dn tbl) auto

lemma walk_response_table:
  "bundle_table (walk_response self response)
     = foldl merge_bundle (bundle_table self) (accepted response)"
  by (induction response arbitrary: self) (auto simp: accepted_def walk_bundles_snd Let_def)

lemma walk_response_plugin_list:
  "plugin_list (walk_response self response) = plugin_list self"
  by (induction response arbitrary: self) (auto simp: Let_def)

lemma walk_response_config:
  "pc_config (walk_response self response) = pc_config self"
  by (induction response arbitrary: self) (auto simp: Let_def)

lemma query_plugins_frame:
  "query_plugins fetch self = Inr self' \<Longrightarrow>
   plugin_list self' = plugin_list self \<and> pc_config self' = pc_config self"
  by (auto simp: query_plugins_def Let_def walk_response_plugin_list walk_response_config
      split: if_splits sum.splits)

lemma map_of_merge_bundle:
  "map_of (merge_bundle tbl b) n =
     (if metric_name b = n
      then (case map_of tbl n of
              None \<Rightarrow> Some b
            | Some e \<Rightarrow> Some (e\<lparr>metrics := metrics e @ metrics b\<rparr>))
      else map_of tbl n)"
  by (auto simp: merge_bundle_def update_conv' split: option.splits)

lemma map_of_foldl_merge_Some:
  "map_of tbl n = Some e \<Longrightarrow>
   map_of (foldl merge_bundle tbl bs) n
     = Some (e\<lparr>metrics := metrics e @ concat (map metrics (filter (\<lambda>b. metric_name b = n) bs))\<rparr>)"
  by (induction bs arbitrary: tbl e) (auto simp: map_of_merge_bundle)

lemma map_of_foldl_merge_None:
  "map_of tbl n = None \<Longrightarrow>
   map_of (foldl merge_bundle tbl bs) n
     = (case filter (\<lambda>b. metric_name b = n) bs of
          [] \<Rightarrow> None
        | b # rest \<Rightarrow> Some (b\<lparr>metrics := metrics b @ concat (map metrics rest)\<rparr>))"
proof (induction bs arbitrary: tbl)
  case Nil
  then show ?case by simp
next
  case (Cons b bs)
  show ?case
  proof (cases "metric_name b = n")
    case True
    with Cons.prems have "map_of (merge_bundle tbl b) n = Some b"
      by (simp add: map_of_merge_bundle)
    from map_of_foldl_merge_Some [OF this] True show ?thesis by simp
  next
    case False
    with Cons.prems have "map_of (merge_bundle tbl b) n = None"
      by (simp add: map_of_merge_bundle)
    from Cons.IH [OF this] False show ?thesis by simp
  qed
qed

lemma ex_gather:
  "gather (map ex_fetch (plugin_list ex_collector)) = Inr [[ex_bundle ''r1'' 7], [ex_bundle ''r2'' 9]]"
  by (simp add: ex_collector_def register_plugin_def PromClient_def)

lemma ex_accepted:
  "accepted [[ex_bundle ''r1'' 7], [ex_bundle ''r2'' 9]] = [ex_bundle ''r1'' 7, ex_bundle ''r2'' 9]"
  by (simp add: accepted_def is_valid_def ex_bundle_def)

text \<open>
  C6. Take a scrape that starts with no table entry for the name \<open>n\<close> (\<open>collect\<close> clears
  the table when it ends) and in which the accepted bundles named \<open>n\<close> are \<open>b1\<close> and
  then the bundles \<open>rest\<close>. The table entry for \<open>n\<close> after the merge is \<open>b1\<close>, the first
  occurrence, with the metric lists of the later occurrences appended to its own in
  their order. For two bundles \<open>b1\<close> and \<open>b2\<close> (\<open>rest = [b2]\<close>) the metrics of the entry
  are \<open>metrics b1 @ metrics b2\<close>.
\<close>

theorem query_plugins_merge_concat:
  assumes "gather (map fetch (plugin_list self)) = Inr response"
    and "map_of (bundle_table self) n = None"
    and "filter (\<lambda>b. metric_name b = n) (accepted response) = b1 # rest"
  shows "\<exists>self'. query_plugins fetch self = Inr self'
           \<and> map_of (bundle_table self') n
               = Some (b1\<lparr>metrics := metrics b1 @ concat (map metrics rest)\<rparr>)
           \<and> (\<forall>b2. rest = [b2] \<longrightarrow>
                 map_option metrics (map_of (bundle_table self') n)
                   = Some (metrics b1 @ metrics b2))"
proof -
  from assms(3) have "accepted response \<noteq> []" by auto
  then have "response \<noteq> []" by (auto simp: accepted_def)
  with assms(1) have ne: "plugin_list self \<noteq> []" by auto
  let ?s1 = "self\<lparr>collected_plugins := 0, collected_devices := 0\<rparr>"
  have q: "query_plugins fetch self = Inr (walk_response ?s1 response)"
    using ne assms(1) by (simp add: query_plugins_def)
  have "map_of (bundle_table (walk_response ?s1 response)) n
          = Some (b1\<lparr>metrics := metrics b1 @ concat (map metrics rest)\<rparr>)"
    using map_of_foldl_merge_None [of "bundle_table self" n "accepted response"] assms(2,3)
    by (simp add: walk_response_table)
  with q show ?thesis by simp
qed

theorem query_plugins_merge_concat_witness:
  "gather (map ex_fetch (plugin_list ex_collector)) = Inr [[ex_bundle ''r1'' 7], [ex_bundle ''r2'' 9]]
   \<and> map_of (bundle_table ex_collector) ''gnmi_iface_in_octets'' = None
   \<and> filter (\<lambda>b. metric_name b = ''gnmi_iface_in_octets'')
        (accepted [[ex_bundle ''r1'' 7], [ex_bundle ''r2'' 9]])
       = [ex_bundle ''r1'' 7, ex_bundle ''r2'' 9]
   \<and> (\<exists>self'. query_plugins ex_fetch ex_collector = Inr self'
        \<and> map_option metrics (map_of (bundle_table self') ''gnmi_iface_in_octets'')
            = Some [\<lparr>labelval = [PyStr ''r1''], metric_val = PyInt 7, ts = 0\<rparr>,
                    \<lparr>labelval = [PyStr ''r2''], metric_val = PyInt 9, ts = 0\<rparr>])"
proof -
  have t: "map_of (bundle_table ex_collector) ''gnmi_iface_in_octets'' = None"
    by (simp add: ex_collector_def register_plugin_def PromClient_def)
  have f: "filter (\<lambda>b. metric_name b = ''gnmi_iface_in_octets'')
             (accepted [[ex_bundle ''r1'' 7], [ex_bundle ''r2'' 9]])
           = [ex_bundle ''r1'' 7, ex_bundle ''r2'' 9]"
    by (simp add: ex_accepted) (simp add: ex_bundle_def)
  have m: "metrics (ex_bundle ''r1'' 7) @ metrics (ex_bundle ''r2'' 9)
           = [\<lparr>labelval = [PyStr ''r1''], metric_val = PyInt 7, ts = 0\<rparr>,
              \<lparr>labelval = [PyStr ''r2''], metric_val = PyInt 9, ts = 0\<rparr>]"
    by (simp add: ex_bundle_def)
  from query_plugins_merge_concat [OF ex_gather t f] obtain self' where
    "query_plugins ex_fetch ex_collector = Inr self'"
    "map_option metrics (map_of (bundle_table self') ''gnmi_iface_in_octets'')
       = Some (metrics (ex_bundle ''r1'' 7) @ metrics (ex_bundle ''r2'' 9))"
    by auto
  with ex_gather t f m show ?thesis by simp
qed

text \<open>
  C4 at a concrete scrape. Two plugins answer, each with one valid bundle, for the
  devices \<open>r1\<close> and \<open>r2\<close>. Both bundles are accepted and carry two device names, yet
  \<open>collected_devices\<close> is 1 after the query: the set \<open>device_names\<close> is created anew for
  every plugin of the response and the gauge is assigned from it in every turn, so the
  last accepted plugin alone decides the value.
\<close>

theorem query_plugins_collected_devices_last_plugin_only:
  "map_sum id collected_devices (query_plugins ex_fetch ex_collector) = Inr 1
   \<and> map_sum id collected_plugins (query_plugins ex_fetch ex_collector) = Inr 2
   \<and> gather (map ex_fetch (plugin_list ex_collector))
       = Inr [[ex_bundle ''r1'' 7], [ex_bundle ''r2'' 9]]
   \<and> card (device_name ` set (accepted [[ex_bundle ''r1'' 7], [ex_bundle ''r2'' 9]])) = 2"
proof -
  have "query_plugins ex_fetch ex_collector
        = Inr (walk_response (ex_collector\<lparr>collected_plugins := 0, collected_devices := 0\<rparr>)
                 [[ex_bundle ''r1'' 7], [ex_bundle ''r2'' 9]])"
    using ex_gather by (simp add: query_plugins_def ex_collector_def register_plugin_def PromClient_def)
  moreover have "is_valid (ex_bundle ''r1'' 7)" "is_valid (ex_bundle ''r2'' 9)"
    by (simp_all add: is_valid_def ex_bundle_def)
  moreover have "device_name (ex_bundle ''r1'' 7) = ''r1''" "device_name (ex_bundle ''r2'' 9) = ''r2''"
    by (simp_all add: ex_bundle_def)
  ultimately show ?thesis
    using ex_gather by (simp add: ex_accepted Let_def)
qed

subsection \<open>PromClient: the gauge of configured devices\<close>

lemma compute_stats_configured_devices:
  "map_of (bundle_table (compute_stats now self)) ''configured_devices''
     = Some (stat_gauge (pc_config self) ''_configured_devices'' ''Number of configured devices''
               (int (length (plugin_list self))) (now 0))"
  by (simp add: compute_stats_def Let_def update_conv')

lemma GnmiClient_registers:
  "length (plugin_list (snd (GnmiClient cfg plug_cfg exporter)))
     = length (plugin_list exporter) + (if ''oc_interfaces'' \<in> plugins cfg then 1 else 0)"
  by (simp add: GnmiClient_def Let_def register_plugin_def)

lemma load_clients_registers:
  "length (plugin_list (snd (load_clients cfgs exporter)))
     = length (plugin_list exporter)
       + length (filter (\<lambda>c. ''oc_interfaces'' \<in> plugins (fst c)) cfgs)"
  by (induction cfgs arbitrary: exporter) (simp_all add: Let_def GnmiClient_registers)

text \<open>
  C10, as the code has it. In every scrape that completes, the bundles handed to the
  exporter contain the gauge \<open><prefix>_configured_devices\<close> and its one sample has the
  length of the list of registered plugins as value. A client builds and registers a
  plugin for the one name it knows, \<open>oc_interfaces\<close>, and for no other name of its set
  \<open>plugins\<close>. So a collector that starts empty holds one plugin for every device that
  enables \<open>oc_interfaces\<close>, whatever else the devices enable: as many plugins as devices
  when every device enables it.
\<close>

theorem configured_devices_counts_registered_plugins:
  "(\<forall>out self'. collect fetch now self = Inr (out, self') \<longrightarrow>
      \<lparr>bundle_type = GAUGE, device_name = [],
       metric_name = pc_metric_prefix (pc_config self) @ ''_configured_devices'',
       documentation = ''Number of configured devices'',
       labelset = [''instance_name''],
       metrics = [\<lparr>labelval = [PyStr (pc_instance_name (pc_config self))],
                  metric_val = PyInt (int (length (plugin_list self))),
                  ts = now 0\<rparr>]\<rparr> \<in> set out)
   \<and> length (plugin_list (snd (load_clients cfgs (PromClient pc_cfg))))
       = length (filter (\<lambda>c. ''oc_interfaces'' \<in> plugins (fst c)) cfgs)
   \<and> ((\<forall>c \<in> set cfgs. ''oc_interfaces'' \<in> plugins (fst c)) \<longrightarrow>
        length (plugin_list (snd (load_clients cfgs (PromClient pc_cfg)))) = length cfgs)"
proof -
  let ?g = "\<lambda>s. stat_gauge (pc_config s) ''_configured_devices'' ''Number of configured devices''
               (int (length (plugin_list s))) (now 0)"
  have "?g self \<in> set out" if c: "collect fetch now self = Inr (out, self')" for out self'
  proof -
    from c obtain s1 where q: "query_plugins fetch self = Inr s1"
      and o: "out = filter (\<lambda>bundle. bundle_type bundle \<noteq> UNKNOWN)
                     (map snd (bundle_table (compute_stats now s1)))"
      by (auto simp: collect_def Let_def split: sum.splits)
    from query_plugins_frame [OF q] have e: "?g s1 = ?g self" by simp
    have "(''configured_devices'', ?g s1) \<in> set (bundle_table (compute_stats now s1))"
      by (rule map_of_SomeD) (rule compute_stats_configured_devices)
    then have "?g s1 \<in> snd ` set (bundle_table (compute_stats now s1))"
      by force
    moreover have "bundle_type (?g s1) \<noteq> UNKNOWN" by (simp add: stat_gauge_def)
    ultimately show ?thesis using o e by simp
  qed
  moreover have l: "length (plugin_list (snd (load_clients cfgs (PromClient pc_cfg))))
       = length (filter (\<lambda>c. ''oc_interfaces'' \<in> plugins (fst c)) cfgs)"
    by (simp add: load_clients_registers PromClient_def)
  moreover have "length (plugin_list (snd (load_clients cfgs (PromClient pc_cfg)))) = length cfgs"
    if "\<forall>c \<in> set cfgs. ''oc_interfaces'' \<in> plugins (fst c)"
    using that l by simp
  ultimately show ?thesis by (simp add: stat_gauge_def)
qed

theorem configured_devices_counts_registered_plugins_witness:
  "(\<exists>out self'. collect ex_fetch ex_clock ex_collector = Inr (out, self')
      \<and> length (plugin_list ex_collector) = 2
      \<and> \<lparr>bundle_type = GAUGE, device_name = [],
         metric_name = ''gnmi_configured_devices'',
         documentation = ''Number of configured devices'',
         labelset = [''instance_name''],
         metrics = [\<lparr>labelval = [PyStr ''default''], metric_val = PyInt 2,
                    ts = 1700000000\<rparr>]\<rparr> \<in> set out)
   \<and> list_all (\<lambda>c. ''oc_interfaces'' \<in> plugins (fst c)) ex_devices
   \<and> length ex_devices = 2
   \<and> length (plugin_list (snd (load_clients ex_devices (PromClient ex_prom_config)))) = 2"
proof -
  have q: "query_plugins ex_fetch ex_collector
        = Inr (walk_response (ex_collector\<lparr>collected_plugins := 0, collected_devices := 0\<rparr>)
                 [[ex_bundle ''r1'' 7], [ex_bundle ''r2'' 9]])"
    using ex_gather by (simp add: query_plugins_def ex_collector_def register_plugin_def PromClient_def)
  then obtain out self' where c: "collect ex_fetch ex_clock ex_collector = Inr (out, self')"
    by (simp add: collect_def Let_def)
  have l: "length (plugin_list ex_collector) = 2"
    and cf: "pc_config ex_collector = ex_prom_config"
    by (simp_all add: ex_collector_def register_plugin_def PromClient_def)
  have d: "\<forall>c \<in> set ex_devices. ''oc_interfaces'' \<in> plugins (fst c)"
    by (simp add: ex_devices_def ex_client_config_def)
  have n: "length ex_devices = 2" by (simp add: ex_devices_def)
  from configured_devices_counts_registered_plugins
         [of ex_fetch ex_clock ex_collector ex_devices ex_prom_config] c d l cf n
  show ?thesis
    by (auto simp: ex_prom_config_def ex_clock_def list_all_iff)
qed

text \<open>
  The claim C10 fails in its product \<open>d * p\<close>: two devices that enable two plugin names
  each, \<open>oc_interfaces\<close> and \<open>oc_bgp\<close>, register two plugins with the collector, not four.
\<close>

theorem configured_devices_not_devices_times_plugins:
  "length ex_devices_two_names = 2
   \<and> card (plugins (fst (ex_devices_two_names ! 0))) = 2
   \<and> card (plugins (fst (ex_devices_two_names ! 1))) = 2
   \<and> length (plugin_list (snd (load_clients ex_devices_two_names (PromClient ex_prom_config))))
       = 2"
  by (simp add: ex_devices_two_names_def ex_client_config_def GnmiClient_def Let_def
      register_plugin_def PromClient_def)

subsection \<open>GnmiClient: the choice of the encoding\<close>

lemma pick_loop_find:
  "pick_loop encs supported sel
     = (case find (\<lambda>enc. enc_value enc \<in> set supported) encs of
          None \<Rightarrow> sel
        | Some enc \<Rightarrow> enc)"
  by (induction encs) simp_all

lemma pick_loop_first:
  assumes "i < length encs"
    and "enc_value (encs ! i) \<in> set supported"
    and "\<forall>j<i. enc_value (encs ! j) \<notin> set supported"
  shows "pick_loop encs supported sel = encs ! i"
proof -
  have "find (\<lambda>enc. enc_value enc \<in> set supported) encs = Some (encs ! i)"
    unfolding find_Some_iff using assms by blast
  then show ?thesis by (simp add: pick_loop_find)
qed

lemma pick_loop_none:
  "\<forall>enc \<in> set encs. enc_value enc \<notin> set supported \<Longrightarrow> pick_loop encs supported sel = sel"
  by (induction encs) simp_all

lemma check_caps_unforced:
  "check_caps self (Some resp) = Inr self' \<Longrightarrow> force_encoding (client_config self) = [] \<Longrightarrow>
   selected_encoding self'
     = pick_loop PREFERRED_ENCODINGS (supported_encodings resp) (selected_encoding self)"
  by (auto simp: check_caps_def split: if_splits)

lemma ex_check_caps:
  "check_caps ex_client (Some (ex_caps encs))
     = Inr (ex_client\<lparr>selected_encoding :=
                        pick_loop PREFERRED_ENCODINGS encs (selected_encoding ex_client)\<rparr>)"
  by (simp add: check_caps_def ex_client_def GnmiClient_def Let_def ex_caps_def get_paths_def
      PATHS_TO_SUBSCRIBE_def DATA_MODEL_def ex_client_config_def)

lemma ex_client_fields:
  "selected_encoding ex_client = JSON" "force_encoding (client_config ex_client) = []"
  by (simp_all add: ex_client_def GnmiClient_def Let_def ex_client_config_def)

text \<open>
  C7, as the code has it. When \<open>force_encoding\<close> is not set and the capability check
  passes, the selected encoding is the first entry of the preferred order
  \<open>[PROTO, JSON, JSON_IETF, ASCII]\<close> whose number is among the supported encodings of the
  device. When no entry is, the check assigns nothing: the selected encoding stays what
  it was before the check, and that is JSON in a client that has just been constructed.
\<close>

theorem check_caps_selects_first_preferred:
  assumes "check_caps self (Some resp) = Inr self'"
    and "force_encoding (client_config self) = []"
  shows "(\<forall>i < length PREFERRED_ENCODINGS.
            enc_value (PREFERRED_ENCODINGS ! i) \<in> set (supported_encodings resp)
            \<and> (\<forall>j<i. enc_value (PREFERRED_ENCODINGS ! j) \<notin> set (supported_encodings resp))
            \<longrightarrow> selected_encoding self' = PREFERRED_ENCODINGS ! i)
       \<and> ((\<forall>enc \<in> set PREFERRED_ENCODINGS. enc_value enc \<notin> set (supported_encodings resp))
            \<longrightarrow> selected_encoding self' = selected_encoding self)
       \<and> selected_encoding (fst (GnmiClient cfg plug_cfg exporter)) = JSON
       \<and> PREFERRED_ENCODINGS = [PROTO, JSON, JSON_IETF, ASCII]"
proof -
  note s = check_caps_unforced [OF assms]
  have "selected_encoding self' = PREFERRED_ENCODINGS ! i"
    if "i < length PREFERRED_ENCODINGS"
      and "enc_value (PREFERRED_ENCODINGS ! i) \<in> set (supported_encodings resp)"
      and "\<forall>j<i. enc_value (PREFERRED_ENCODINGS ! j) \<notin> set (supported_encodings resp)" for i
    using s pick_loop_first [OF that] by simp
  moreover have "selected_encoding self' = selected_encoding self"
    if "\<forall>enc \<in> set PREFERRED_ENCODINGS. enc_value enc \<notin> set (supported_encodings resp)"
    using s pick_loop_none [OF that] by simp
  moreover have "selected_encoding (fst (GnmiClient cfg plug_cfg exporter)) = JSON"
    by (simp add: GnmiClient_def Let_def)
  moreover have "PREFERRED_ENCODINGS = [PROTO, JSON, JSON_IETF, ASCII]"
    by (simp add: PREFERRED_ENCODINGS_def)
  ultimately show ?thesis by blast
qed

theorem check_caps_selects_first_preferred_witness:
  "check_caps ex_client (Some (ex_caps [0, 4])) = Inr (ex_client\<lparr>selected_encoding := JSON\<rparr>)
   \<and> force_encoding (client_config ex_client) = []
   \<and> PREFERRED_ENCODINGS ! 1 = JSON
   \<and> enc_value (PREFERRED_ENCODINGS ! 1) \<in> set (supported_encodings (ex_caps [0, 4]))
   \<and> enc_value (PREFERRED_ENCODINGS ! 0) \<notin> set (supported_encodings (ex_caps [0, 4]))
   \<and> selected_encoding (ex_client\<lparr>selected_encoding := JSON\<rparr>) = PREFERRED_ENCODINGS ! 1
   \<and> check_caps ex_client (Some (ex_caps [1])) = Inr ex_client
   \<and> list_all (\<lambda>enc. enc_value enc \<notin> set (supported_encodings (ex_caps [1]))) PREFERRED_ENCODINGS
   \<and> selected_encoding ex_client = JSON"
proof -
  have a: "check_caps ex_client (Some (ex_caps [0, 4])) = Inr (ex_client\<lparr>selected_encoding := JSON\<rparr>)"
    by (simp add: ex_check_caps PREFERRED_ENCODINGS_def)
  have b: "check_caps ex_client (Some (ex_caps [1])) = Inr ex_client"
    by (simp add: ex_check_caps PREFERRED_ENCODINGS_def ex_client_fields(1))
  have p: "(1::nat) < length PREFERRED_ENCODINGS"
    "PREFERRED_ENCODINGS ! 1 = JSON"
    "enc_value (PREFERRED_ENCODINGS ! 1) \<in> set (supported_encodings (ex_caps [0, 4]))"
    "\<forall>j<1. enc_value (PREFERRED_ENCODINGS ! j) \<notin> set (supported_encodings (ex_caps [0, 4]))"
    "enc_value (PREFERRED_ENCODINGS ! 0) \<notin> set (supported_encodings (ex_caps [0, 4]))"
    "list_all (\<lambda>enc. enc_value enc \<notin> set (supported_encodings (ex_caps [1]))) PREFERRED_ENCODINGS"
    by (simp_all add: PREFERRED_ENCODINGS_def ex_caps_def)
  note t = check_caps_selects_first_preferred [OF a ex_client_fields(2)]
  from t p(1,3,4)
  have s: "selected_encoding (ex_client\<lparr>selected_encoding := JSON\<rparr>) = PREFERRED_ENCODINGS ! 1"
    by blast
  from a b p(2,3,5,6) s ex_client_fields show ?thesis by blast
qed

text \<open>
  The claim C7 is not true of a session that reconnects. The first check finds PROTO
  among the encodings of the device and selects it. The second check, after a
  reconnect, meets a device that supports BYTES only: none of the preferred encodings is
  supported, and the selected encoding is PROTO still, not JSON.
\<close>

theorem check_caps_keeps_previous_encoding:
  "force_encoding (client_config ex_client) = []
   \<and> check_caps ex_client (Some (ex_caps [2])) = Inr (ex_client\<lparr>selected_encoding := PROTO\<rparr>)
   \<and> set (map enc_value PREFERRED_ENCODINGS) \<inter> set (supported_encodings (ex_caps [1])) = {}
   \<and> map_sum id selected_encoding
        (check_caps (ex_client\<lparr>selected_encoding := PROTO\<rparr>) (Some (ex_caps [1])))
       = Inr PROTO"
  by (simp add: ex_check_caps ex_client_fields PREFERRED_ENCODINGS_def ex_caps_def)
    (simp add: check_caps_def ex_client_def GnmiClient_def Let_def get_paths_def
      PATHS_TO_SUBSCRIBE_def DATA_MODEL_def ex_client_config_def PREFERRED_ENCODINGS_def)

subsection \<open>OcInterfaces: what the render keeps and what makes it return\<close>

lemma build_tables_step_frame:
  "buffer (build_tables_step self upd) = buffer self
   \<and> on_sync (build_tables_step self upd) = on_sync self
   \<and> update_list (build_tables_step self upd) = update_list self"
  by (simp add: build_tables_step_def Let_def)

lemma foldl_build_tables_frame:
  "buffer (foldl build_tables_step self us) = buffer self
   \<and> on_sync (foldl build_tables_step self us) = on_sync self
   \<and> update_list (foldl build_tables_step self us) = update_list self"
  by (induction us arbitrary: self) (simp_all add: build_tables_step_frame)

lemma build_tables_frame:
  "buffer (build_tables self) = buffer self
   \<and> on_sync (build_tables self) = on_sync self
   \<and> update_list (build_tables self) = update_list self"
  by (simp add: build_tables_def foldl_build_tables_frame)

lemma update_tables_step_frame:
  "update_tables_step self upd = Inr self' \<Longrightarrow>
   buffer self' = buffer self \<and> on_sync self' = on_sync self"
  by (auto simp: update_tables_step_def update_tables_iface_def update_tables_subiface_def
      split: sum.splits option.splits if_splits)

lemma update_tables_loop_frame:
  "update_tables_loop self us = Inr self' \<Longrightarrow>
   buffer self' = buffer self \<and> on_sync self' = on_sync self"
proof (induction us arbitrary: self)
  case Nil
  then show ?case by simp
next
  case (Cons u us)
  then obtain s1 where s: "update_tables_step self u = Inr s1"
    and l: "update_tables_loop s1 us = Inr self'"
    by (auto split: sum.splits)
  from Cons.IH [OF l] update_tables_step_frame [OF s] show ?case by simp
qed

lemma build_metrics_frame:
  "buffer (build_metrics now self) = buffer self
   \<and> on_sync (build_metrics now self) = on_sync self"
  by (simp add: build_metrics_def Let_def)

lemma build_bundle_list_frame:
  "buffer (build_bundle_list self) = buffer self
   \<and> on_sync (build_bundle_list self) = on_sync self"
  by (simp add: build_bundle_list_def Let_def)

lemma nf_buf_checkout: "checkout self = Inr self' \<Longrightarrow> nf_buf self' = []"
  using checkout_buffer [of self self'] by (simp add: nf_buf_def)

lemma fetch_drains:
  assumes "fetch_metric_bundles now self = Inr r"
  shows "nf_buf (snd r) = []"
proof -
  from assms obtain s1 where c: "checkout (clear_all_tables self) = Inr s1"
    by (auto simp: fetch_metric_bundles_def split: sum.splits)
  note n = nf_buf_checkout [OF c]
  show ?thesis
  proof (cases "update_list s1 = []")
    case True
    with assms c n show ?thesis by (auto simp: fetch_metric_bundles_def)
  next
    case False
    with assms c obtain s2 where u: "update_tables (build_tables s1) = Inr s2"
      and r: "r = (bundle_list (build_bundle_list (build_metrics now s2)),
                   build_bundle_list (build_metrics now s2))"
      by (auto simp: fetch_metric_bundles_def Let_def split: sum.splits)
    from u have "buffer s2 = buffer s1 \<and> on_sync s2 = on_sync s1"
      using update_tables_loop_frame [of "build_tables s1" "update_list (build_tables s1)" s2]
      by (simp add: update_tables_def build_tables_frame)
    with n r show ?thesis
      by (auto simp: nf_buf_def build_metrics_frame build_bundle_list_frame split: if_splits)
  qed
qed

lemma fetch_nothing_buffered:
  assumes "nf_buf self = []"
  shows "\<exists>self'. fetch_metric_bundles now self = Inr ([], self')"
proof -
  have "nf_buf (clear_all_tables self) = []"
    using assms by (auto simp: nf_buf_def clear_all_tables_def split: if_splits)
  then have "\<exists>s1. checkout (clear_all_tables self) = Inr s1 \<and> update_list s1 = []"
    by (simp add: checkout_def Let_def)
  then show ?thesis by (auto simp: fetch_metric_bundles_def)
qed

text \<open>
  C2, as the code has it. \<open>fetch_metric_bundles\<close> drains the buffer, so of two calls in
  succession with nothing delivered in between, the second one returns the empty list
  whenever the first one returns. The two calls return the same bundles only when the
  first call returns no bundle either.
\<close>

theorem fetch_twice_second_is_empty:
  assumes "fetch_metric_bundles now1 self = Inr r"
  shows "fetch_twice now1 now2 self = Inr (fst r, [])"
proof -
  from fetch_nothing_buffered [OF fetch_drains [OF assms]]
  obtain s2 where "fetch_metric_bundles now2 (snd r) = Inr ([], s2)" by blast
  with assms show ?thesis by (simp add: fetch_twice_def)
qed

theorem fetch_twice_second_is_empty_witness:
  "map_sum id (length \<circ> fst) (fetch_metric_bundles ex_clock (ex_plugin [ex_nf_name, ex_nf_octets] True))
     = Inr 39
   \<and> map_sum id snd (fetch_twice ex_clock ex_clock (ex_plugin [ex_nf_name, ex_nf_octets] True))
       = Inr []"
proof -
  have a: "map_sum id (length \<circ> fst)
             (fetch_metric_bundles ex_clock (ex_plugin [ex_nf_name, ex_nf_octets] True)) = Inr 39"
    by code_simp
  then obtain r where
    r: "fetch_metric_bundles ex_clock (ex_plugin [ex_nf_name, ex_nf_octets] True) = Inr r"
    by (cases "fetch_metric_bundles ex_clock (ex_plugin [ex_nf_name, ex_nf_octets] True)") auto
  from fetch_twice_second_is_empty [OF r, of ex_clock] a show ?thesis by simp
qed

text \<open>
  The claim C2 fails on a plugin that is on sync and has buffered two notifications:
  the first call returns 39 bundles, the second call returns none.
\<close>

theorem fetch_twice_differs:
  "map_sum id (map_prod length length)
     (fetch_twice ex_clock ex_clock (ex_plugin [ex_nf_name, ex_nf_octets] True))
   = Inr (39, 0)"
  by code_simp

text \<open>The message that \<open>new_upd_msg\<close> builds from an update with a value.\<close>

lemma new_upd_msg_Inr:
  "new_upd_msg g u = Inr m \<Longrightarrow>
   path m = path g @ map name (elem (upd_path u)) \<and> val m = upd_val u \<and> upd_val u \<noteq> None"
  by (auto simp: new_upd_msg_def scan_gnmi_path_def Let_def split: option.splits)

lemma path_GnmiUpdate: "path (GnmiUpdate nf) = map name (elem (nf_prefix nf))"
  by (simp add: GnmiUpdate_def scan_gnmi_path_def)

lemma unpack_updates_total:
  "\<forall>u \<in> set us. upd_val u \<noteq> None \<Longrightarrow> \<exists>ms. unpack_updates g us = Inr ms"
  by (induction us) (auto simp: new_upd_msg_def Let_def split: sum.splits)

lemma unpack_updates_origin:
  "unpack_updates g us = Inr ms \<Longrightarrow> m \<in> set ms \<Longrightarrow>
   \<exists>u \<in> set us. new_upd_msg g u = Inr m"
  by (induction us arbitrary: ms) (auto split: sum.splits)

lemma unpack_total:
  "\<forall>nf \<in> set nfs. \<forall>u \<in> set (nf_update nf). upd_val u \<noteq> None \<Longrightarrow>
   \<exists>us ds. unpack nfs = Inr (us, ds)"
proof (induction nfs)
  case Nil
  then show ?case by simp
next
  case (Cons nf nfs)
  then obtain us ds where "unpack nfs = Inr (us, ds)" by auto
  moreover from Cons.prems obtain ms where "unpack_updates (GnmiUpdate nf) (nf_update nf) = Inr ms"
    using unpack_updates_total [of "nf_update nf" "GnmiUpdate nf"] by auto
  ultimately show ?case by simp
qed

lemma unpack_origin:
  "unpack nfs = Inr (us, ds) \<Longrightarrow> m \<in> set us \<Longrightarrow>
   \<exists>nf \<in> set nfs. \<exists>u \<in> set (nf_update nf). new_upd_msg (GnmiUpdate nf) u = Inr m"
proof (induction nfs arbitrary: us ds)
  case Nil
  then show ?case by simp
next
  case (Cons nf nfs)
  from Cons.prems(1) obtain ms us' ds' where
    a: "unpack_updates (GnmiUpdate nf) (nf_update nf) = Inr ms"
    and b: "unpack nfs = Inr (us', ds')" and c: "us = ms @ us'"
    by (auto split: sum.splits)
  from Cons.prems(2) c consider "m \<in> set ms" | "m \<in> set us'" by auto
  then show ?case
  proof cases
    case 1
    from unpack_updates_origin [OF a 1] show ?thesis by auto
  next
    case 2
    from Cons.IH [OF b 2] show ?thesis by auto
  qed
qed

text \<open>A flattened message on which the body of the loop of \<open>update_tables\<close> returns.\<close>

lemma startswith_nonempty:
  "startswith pat (concat p) \<Longrightarrow> pat \<noteq> [] \<Longrightarrow> p \<noteq> []"
  by (auto simp: startswith_def)

lemma subiface_metric_is_iface_metric:
  "leaf \<in> set SUBIFACE_METRIC_SET \<Longrightarrow> leaf \<in> set IFACE_METRIC_SET"
  by (simp add: IFACE_METRIC_SET_def)

lemma castable_Inr: "castable v \<Longrightarrow> \<exists>i. int_val v = Inr i"
  by (cases "int_val v") (simp_all add: castable_def)

lemma update_tables_iface_total:
  assumes "path upd \<noteq> [] \<and> last (path upd) \<in> set IFACE_METRIC_SET \<longrightarrow> castable (val upd)"
  shows "\<exists>r. update_tables_iface self upd = Inr r"
proof (cases "startswith ''interfacesinterfacestate'' (concat (path upd))")
  case False
  then show ?thesis by (simp add: update_tables_iface_def)
next
  case True
  then have ne: "path upd \<noteq> []" by (rule startswith_nonempty) simp
  show ?thesis
  proof (cases "last (path upd) \<in> set IFACE_LABEL_SET")
    case True
    with \<open>startswith _ _\<close> ne show ?thesis
      by (simp add: update_tables_iface_def path_last_def)
  next
    case nl: False
    show ?thesis
    proof (cases "last (path upd) \<in> set IFACE_METRIC_SET")
      case True
      with assms ne obtain i where "int_val (val upd) = Inr i"
        using castable_Inr by blast
      with True nl \<open>startswith _ _\<close> ne show ?thesis
        by (simp add: update_tables_iface_def path_last_def)
    next
      case False
      with nl \<open>startswith _ _\<close> ne show ?thesis
        by (simp add: update_tables_iface_def path_last_def)
    qed
  qed
qed

lemma update_tables_subiface_total:
  assumes "path upd \<noteq> [] \<and> last (path upd) \<in> set IFACE_METRIC_SET \<longrightarrow> castable (val upd)"
  shows "\<exists>r. update_tables_subiface self upd = Inr r"
proof (cases "startswith ''interfacesinterfacesubinterfacessubinterfacestate'' (concat (path upd))")
  case False
  then show ?thesis by (simp add: update_tables_subiface_def)
next
  case True
  then have ne: "path upd \<noteq> []" by (rule startswith_nonempty) simp
  show ?thesis
  proof (cases "last (path upd) \<in> set SUBIFACE_LABEL_SET")
    case True
    with \<open>startswith _ _\<close> ne show ?thesis
      by (simp add: update_tables_subiface_def path_last_def)
  next
    case nl: False
    show ?thesis
    proof (cases "last (path upd) \<in> set SUBIFACE_METRIC_SET")
      case True
      with assms ne obtain i where "int_val (val upd) = Inr i"
        using castable_Inr subiface_metric_is_iface_metric by blast
      with True nl \<open>startswith _ _\<close> ne show ?thesis
        by (simp add: update_tables_subiface_def path_last_def)
    next
      case False
      with nl \<open>startswith _ _\<close> ne show ?thesis
        by (simp add: update_tables_subiface_def path_last_def)
    qed
  qed
qed

lemma update_tables_step_total:
  assumes "path upd \<noteq> [] \<and> last (path upd) \<in> set IFACE_METRIC_SET \<longrightarrow> castable (val upd)"
  shows "\<exists>self'. update_tables_step self upd = Inr self'"
proof -
  from update_tables_iface_total [OF assms] obtain r where
    r: "update_tables_iface self upd = Inr r" by blast
  show ?thesis
  proof (cases r)
    case None
    with r show ?thesis by (simp add: update_tables_step_def)
  next
    case (Some s1)
    from update_tables_subiface_total [OF assms] obtain q where
      "update_tables_subiface s1 upd = Inr q" by blast
    with r Some show ?thesis
      by (cases q) (simp_all add: update_tables_step_def)
  qed
qed

lemma update_tables_loop_total:
  "\<forall>upd \<in> set us. path upd \<noteq> [] \<and> last (path upd) \<in> set IFACE_METRIC_SET \<longrightarrow> castable (val upd)
   \<Longrightarrow> \<exists>self'. update_tables_loop self us = Inr self'"
proof (induction us arbitrary: self)
  case Nil
  then show ?case by simp
next
  case (Cons u us)
  then obtain s1 where "update_tables_step self u = Inr s1"
    using update_tables_step_total [of u self] by auto
  with Cons show ?case by simp
qed

lemma unknown_leaf_skipped:
  assumes "last (path upd) \<notin> set known_leaves"
  shows "update_tables_step self upd = Inr self"
proof -
  from assms have n: "last (path upd) \<notin> set IFACE_LABEL_SET"
    "last (path upd) \<notin> set IFACE_METRIC_SET"
    "last (path upd) \<notin> set SUBIFACE_LABEL_SET"
    "last (path upd) \<notin> set SUBIFACE_METRIC_SET"
    by (simp_all add: known_leaves_def)
  have a: "update_tables_iface self upd = Inr None \<or> update_tables_iface self upd = Inr (Some self)"
  proof (cases "startswith ''interfacesinterfacestate'' (concat (path upd))")
    case True
    then have "path upd \<noteq> []" by (rule startswith_nonempty) simp
    with True n show ?thesis by (simp add: update_tables_iface_def path_last_def)
  next
    case False
    then show ?thesis by (simp add: update_tables_iface_def)
  qed
  have b: "update_tables_subiface self upd = Inr None
         \<or> update_tables_subiface self upd = Inr (Some self)"
  proof (cases "startswith ''interfacesinterfacesubinterfacessubinterfacestate'' (concat (path upd))")
    case True
    then have "path upd \<noteq> []" by (rule startswith_nonempty) simp
    with True n show ?thesis by (simp add: update_tables_subiface_def path_last_def)
  next
    case False
    then show ?thesis by (simp add: update_tables_subiface_def)
  qed
  from a b show ?thesis by (auto simp: update_tables_step_def)
qed

lemma missing_key_sentinel:
  "length (path_keys msg) \<le> index \<or> map_of (path_keys msg ! index) nm = None
   \<Longrightarrow> get_path_key msg index nm = ''not_available''"
  by (auto simp: get_path_key_def)

lemma fetch_returns:
  assumes "all_well_valued (nf_buf self)"
  shows "\<exists>bs self'. fetch_metric_bundles now self = Inr (bs, self')"
proof -
  let ?c = "clear_all_tables self"
  have nb: "nf_buf ?c = nf_buf self" by (simp add: nf_buf_def clear_all_tables_def)
  from assms have wv: "\<forall>nf \<in> set (nf_buf ?c). \<forall>u \<in> set (nf_update nf). well_valued nf u"
    by (simp add: nb all_well_valued_def list_all_iff)
  then have "\<forall>nf \<in> set (nf_buf ?c). \<forall>u \<in> set (nf_update nf). upd_val u \<noteq> None"
    by (simp add: well_valued_def)
  from unpack_total [OF this] obtain us ds where u: "unpack (nf_buf ?c) = Inr (us, ds)" by blast
  then obtain s1 where c: "checkout ?c = Inr s1" and ul: "update_list s1 = sort_key timestamp us"
    by (auto simp: checkout_def Let_def)
  have ok: "path m \<noteq> [] \<and> last (path m) \<in> set IFACE_METRIC_SET \<longrightarrow> castable (val m)"
    if "m \<in> set (update_list (build_tables s1))" for m
  proof -
    from that ul have "m \<in> set us" by (simp add: build_tables_frame)
    from unpack_origin [OF u this] obtain nf w where
      nf: "nf \<in> set (nf_buf ?c)" and w: "w \<in> set (nf_update nf)"
      and m: "new_upd_msg (GnmiUpdate nf) w = Inr m" by blast
    from new_upd_msg_Inr [OF m] have "path m = flat_path nf w" "val m = upd_val w"
      by (simp_all add: flat_path_def path_GnmiUpdate)
    with wv nf w show ?thesis by (auto simp: well_valued_def split: if_splits)
  qed
  then obtain s2 where "update_tables (build_tables s1) = Inr s2"
    using update_tables_loop_total [of "update_list (build_tables s1)" "build_tables s1"]
    by (auto simp: update_tables_def)
  with c show ?thesis by (simp add: fetch_metric_bundles_def Let_def)
qed

text \<open>
  C3, as the code has it. The render returns a bundle list whenever every buffered
  update is well valued: its value is set and, on a metric leaf, accepted by \<open>int()\<close>.
  Nothing is asked of the leaf names or of the path keys: a path key that is missing
  reads as the sentinel \<open>not_available\<close>, and an update whose leaf is none of the known
  labels and metrics leaves the tables as they are.
\<close>

theorem render_survives_unknown_leaf_and_missing_key:
  "(all_well_valued (nf_buf self) \<longrightarrow>
      (\<exists>bs self'. fetch_metric_bundles now self = Inr (bs, self')))
   \<and> (length (path_keys msg) \<le> index \<or> map_of (path_keys msg ! index) nm = None
        \<longrightarrow> get_path_key msg index nm = ''not_available'')
   \<and> (last (path upd) \<notin> set known_leaves \<longrightarrow> update_tables_step plug upd = Inr plug)"
  using fetch_returns [of self now] missing_key_sentinel [of msg index nm]
    unknown_leaf_skipped [of upd plug]
  by blast

theorem render_survives_unknown_leaf_and_missing_key_witness:
  "all_well_valued (nf_buf (ex_plugin [ex_nf_name, ex_nf_unknown, ex_nf_octets] True))
   \<and> (\<exists>bs self'. fetch_metric_bundles ex_clock (ex_plugin [ex_nf_name, ex_nf_unknown, ex_nf_octets] True)
                   = Inr (bs, self'))
   \<and> map_of (path_keys (GnmiUpdate ex_nf_unknown) ! 1) ''name'' = None
   \<and> get_path_key (GnmiUpdate ex_nf_unknown) 1 ''name'' = ''not_available''
   \<and> length (path_keys (GnmiUpdate ex_nf_unknown)) \<le> 3
   \<and> get_path_key (GnmiUpdate ex_nf_unknown) 3 ''index'' = ''not_available''
   \<and> last (path (projr (new_upd_msg (GnmiUpdate ex_nf_unknown) (hd (nf_update ex_nf_unknown)))))
       \<notin> set known_leaves
   \<and> update_tables_step (ex_plugin [] True)
        (projr (new_upd_msg (GnmiUpdate ex_nf_unknown) (hd (nf_update ex_nf_unknown))))
       = Inr (ex_plugin [] True)"
proof -
  have a: "all_well_valued (nf_buf (ex_plugin [ex_nf_name, ex_nf_unknown, ex_nf_octets] True))"
    by code_simp
  have b: "map_of (path_keys (GnmiUpdate ex_nf_unknown) ! 1) ''name'' = None"
    by code_simp
  have c: "length (path_keys (GnmiUpdate ex_nf_unknown)) \<le> 3"
    by code_simp
  have d: "last (path (projr (new_upd_msg (GnmiUpdate ex_nf_unknown) (hd (nf_update ex_nf_unknown)))))
             \<notin> set known_leaves"
    by code_simp
  from render_survives_unknown_leaf_and_missing_key
         [of "ex_plugin [ex_nf_name, ex_nf_unknown, ex_nf_octets] True" ex_clock
             "GnmiUpdate ex_nf_unknown" 1 "''name''"
             "projr (new_upd_msg (GnmiUpdate ex_nf_unknown) (hd (nf_update ex_nf_unknown)))"
             "ex_plugin [] True"]
       render_survives_unknown_leaf_and_missing_key
         [of "ex_plugin [ex_nf_name, ex_nf_unknown, ex_nf_octets] True" ex_clock
             "GnmiUpdate ex_nf_unknown" 3 "''index''"
             "projr (new_upd_msg (GnmiUpdate ex_nf_unknown) (hd (nf_update ex_nf_unknown)))"
             "ex_plugin [] True"]
       a b c d
  show ?thesis by blast
qed

text \<open>
  The claim C3 fails on a value that \<open>int()\<close> rejects on a metric leaf: with the text
  \<open>n/a\<close> as the value of \<open>in-octets\<close> the ValueError of \<open>int()\<close> leaves \<open>update_tables\<close> and
  the render, and no bundle list is returned.
\<close>

theorem render_aborts_on_failed_cast:
  "fetch_metric_bundles ex_clock (ex_plugin [ex_nf_name, ex_nf_bad_octets] True) = Inl ValueError"
  by code_simp

subsection \<open>xpath_to_gnmi: elements per component\<close>

lemma length_key_loop: "length (key_loop pname tmp_key xs) = length xs"
  by (induction xs arbitrary: tmp_key) (simp_all add: Let_def)

text \<open>
  The number of elements of the path that \<open>xpath_to_gnmi\<close> returns: a component without
  key gives one element, a component with keys one element for each of its brackets.
\<close>

lemma word_loop_length:
  "word_loop ws = Inr es \<Longrightarrow>
   length es = (\<Sum>w\<leftarrow>ws. if snd (the (path_component w)) then length (findall w) else 1)"
  by (induction ws arbitrary: es) (auto simp: length_key_loop split: option.splits sum.splits)

text \<open>
  C1 at a concrete xpath. The xpath has four components, the last with the two keys
  \<open>identifier\<close> and \<open>name\<close>. Every component matches the component pattern, and the
  path that \<open>xpath_to_gnmi\<close> returns has five elements: the statement that appends the
  element stands inside the loop over the brackets, so the last component gives one
  element with the first key alone and a second element with both keys.
\<close>

theorem xpath_to_gnmi_two_keys_two_elements:
  "re_split (strip_slash ex_xpath_two_keys)
     = [''network-instances'', ''network-instance[name=default]'', ''protocols'',
        ''protocol[identifier=BGP][name=bgp]'']
   \<and> xpath_to_gnmi ex_xpath_two_keys ''openconfig'' None
     = Inr \<lparr>elem =
              [\<lparr>name = ''network-instances'', key = []\<rparr>,
               \<lparr>name = ''network-instance'', key = [(''name'', ''default'')]\<rparr>,
               \<lparr>name = ''protocols'', key = []\<rparr>,
               \<lparr>name = ''protocol'', key = [(''identifier'', ''BGP'')]\<rparr>,
               \<lparr>name = ''protocol'', key = [(''identifier'', ''BGP''), (''name'', ''bgp'')]\<rparr>],
            origin = ''openconfig'', target = None\<rparr>"
  by code_simp

end
